theory Spec2Isabelle
  imports Main
begin

section \<open>Python values, exceptions and the outside world\<close>

text \<open>
  A Python \<^verbatim>\<open>str\<close> is a sequence of Unicode code points, so a string is a list of
  natural numbers. \<open>cp\<close> is the code point of a character of the source text and \<open>u\<close> the
  string of a literal of the source text.
\<close>

type_synonym str = "nat list"

definition cp :: "char \<Rightarrow> nat" where
  "cp c = of_char c"

definition u :: "string \<Rightarrow> str" where
  "u s = map cp s"

text \<open>
  The program is dynamically typed: the decoded event payload and every boto3 response is
  a tree of dictionaries, lists and scalars, and each subscript can raise. The values are
  therefore one datatype. Floating-point numbers are left out.
\<close>

datatype pyval =
    PNone
  | PBool bool
  | PInt int
  | PStr str
  | PList "pyval list"
  | PDict "(str \<times> pyval) list"

text \<open>
  Exceptions. \<open>ValueError\<close> and \<open>Exception\<close> are the two classes the program constructs
  itself, with the message it gives them. \<open>KeyError\<close>, \<open>IndexError\<close>, \<open>TypeError\<close> and
  \<open>AttributeError\<close> are raised by the interpreter. \<open>ClientError\<close> is botocore's, carrying
  its \<^verbatim>\<open>response\<close> attribute. \<open>Foreign\<close> is any other exception class that a library
  call raises (class name and message). All of them are subclasses of Python's
  \<^verbatim>\<open>Exception\<close>.
\<close>

datatype exn =
    ValueError str
  | Exception str
  | KeyError pyval
  | IndexError
  | TypeError
  | AttributeError
  | ClientError pyval
  | Foreign str str

text \<open>
  What the program asks of its collaborators, in the order it asks: the four boto3 queries,
  the SNS publish, and the one warning line that feeds the metric filter. Informational
  log lines are not recorded.
\<close>

datatype effect =
    DescribeContainerInstances pyval pyval
  | DescribeInstances str
  | DescribeInstanceInformation str
  | DescribeClusters pyval
  | Publish pyval str str
  | LogWarning str

type_synonym trace = "effect list"

text \<open>
  The outside world. \<open>upstream\<close> answers a boto3 request; it is given the whole trace up
  to and including the request, so that an answer may depend on everything issued before
  (the same query may be answered differently later in the batch). \<open>json_loads\<close> is
  \<^verbatim>\<open>json.loads\<close> on a string, \<open>environ\<close> is \<^verbatim>\<open>os.environ\<close>, \<open>py_repr\<close> is
  \<^verbatim>\<open>str()\<close> of a value that is not a string, and \<open>exn_str\<close> is \<^verbatim>\<open>str()\<close> of an
  exception the program did not construct itself. The Unicode database of the interpreter
  is a part of the world too: \<open>unicode_decimal\<close> says which code points from 128 on are
  decimal digits (the ones \<^verbatim>\<open>\d\<close> matches besides 0-9), and \<open>unicode_lower\<close> is
  \<^verbatim>\<open>str.lower()\<close> on a string that is not pure ASCII. Creating a boto3 client is taken
  to succeed.
\<close>

record world =
  upstream :: "trace \<Rightarrow> exn + pyval"
  json_loads :: "str \<Rightarrow> exn + pyval"
  environ :: "str \<Rightarrow> str option"
  py_repr :: "pyval \<Rightarrow> str"
  exn_str :: "exn \<Rightarrow> str"
  unicode_decimal :: "nat \<Rightarrow> bool"
  unicode_lower :: "str \<Rightarrow> str"

definition call :: "world \<Rightarrow> trace \<Rightarrow> effect \<Rightarrow> (exn + pyval) \<times> trace" where
  "call w tr req = (upstream w (tr @ [req]), tr @ [req])"

definition py_str :: "world \<Rightarrow> pyval \<Rightarrow> str" where
  "py_str w v = (case v of PStr s \<Rightarrow> s | _ \<Rightarrow> py_repr w v)"

definition str_exn :: "world \<Rightarrow> exn \<Rightarrow> str" where
  "str_exn w e = (case e of ValueError m \<Rightarrow> m | Exception m \<Rightarrow> m | _ \<Rightarrow> exn_str w e)"

subsection \<open>Subscripts, \<^verbatim>\<open>.get\<close>, iteration, truth value\<close>

text \<open>\<^verbatim>\<open>v[k]\<close> for a string key \<open>k\<close>.\<close>

definition getitem_str :: "pyval \<Rightarrow> str \<Rightarrow> exn + pyval" where
  "getitem_str v k =
     (case v of
        PDict d \<Rightarrow> (case map_of d k of None \<Rightarrow> Inl (KeyError (PStr k)) | Some x \<Rightarrow> Inr x)
      | _ \<Rightarrow> Inl TypeError)"

text \<open>\<^verbatim>\<open>v[i]\<close> for a non-negative integer literal \<open>i\<close> (the program uses 0 and 1).\<close>

definition getitem_int :: "pyval \<Rightarrow> nat \<Rightarrow> exn + pyval" where
  "getitem_int v i =
     (case v of
        PList xs \<Rightarrow> (if i < length xs then Inr (xs ! i) else Inl IndexError)
      | PStr s \<Rightarrow> (if i < length s then Inr (PStr [s ! i]) else Inl IndexError)
      | PDict d \<Rightarrow> Inl (KeyError (PInt (int i)))
      | _ \<Rightarrow> Inl TypeError)"

datatype idx = K str | I nat

fun subscripts :: "pyval \<Rightarrow> idx list \<Rightarrow> exn + pyval" where
  "subscripts v [] = Inr v"
| "subscripts v (K k # ks) =
     (case getitem_str v k of Inl e \<Rightarrow> Inl e | Inr x \<Rightarrow> subscripts x ks)"
| "subscripts v (I i # ks) =
     (case getitem_int v i of Inl e \<Rightarrow> Inl e | Inr x \<Rightarrow> subscripts x ks)"

text \<open>\<^verbatim>\<open>v.get(k, None)\<close>: only a dictionary has the method.\<close>

definition py_get :: "pyval \<Rightarrow> str \<Rightarrow> exn + pyval" where
  "py_get v k =
     (case v of
        PDict d \<Rightarrow> (case map_of d k of None \<Rightarrow> Inr PNone | Some x \<Rightarrow> Inr x)
      | _ \<Rightarrow> Inl AttributeError)"

text \<open>\<^verbatim>\<open>for x in v\<close>: a string yields its characters, a dictionary its keys.\<close>

definition py_iter :: "pyval \<Rightarrow> exn + pyval list" where
  "py_iter v =
     (case v of
        PList xs \<Rightarrow> Inr xs
      | PStr s \<Rightarrow> Inr (map (\<lambda>c. PStr [c]) s)
      | PDict d \<Rightarrow> Inr (map (\<lambda>kv. PStr (fst kv)) d)
      | _ \<Rightarrow> Inl TypeError)"

definition truthy :: "pyval \<Rightarrow> bool" where
  "truthy v =
     (case v of
        PNone \<Rightarrow> False
      | PBool b \<Rightarrow> b
      | PInt i \<Rightarrow> i \<noteq> 0
      | PStr s \<Rightarrow> s \<noteq> []
      | PList xs \<Rightarrow> xs \<noteq> []
      | PDict d \<Rightarrow> d \<noteq> [])"

subsection \<open>String methods\<close>

text \<open>\<^verbatim>\<open>str.lower()\<close>: on a pure ASCII string A-Z become a-z and nothing else
  changes; any other string is left to the Unicode database.\<close>

definition ascii_lower :: "nat \<Rightarrow> nat" where
  "ascii_lower c = (if 65 \<le> c \<and> c \<le> 90 then c + 32 else c)"

definition lower :: "world \<Rightarrow> str \<Rightarrow> str" where
  "lower w s = (if list_all (\<lambda>c. c < 128) s then map ascii_lower s else unicode_lower w s)"

text \<open>
  \<^verbatim>\<open>s.rsplit(sep, 1)\<close> for a one-character separator: one split at the last separator,
  or the whole string alone when there is none.
\<close>

definition rsplit1 :: "nat \<Rightarrow> str \<Rightarrow> str list" where
  "rsplit1 sep s =
     (if sep \<in> set s
      then [rev (tl (dropWhile (\<lambda>c. c \<noteq> sep) (rev s))), rev (takeWhile (\<lambda>c. c \<noteq> sep) (rev s))]
      else [s])"

subsection \<open>Regular expressions\<close>

text \<open>
  The fragment of \<^verbatim>\<open>re\<close> the program uses, matched by backtracking: a state is the
  number of characters consumed and the rest of the subject, and a pattern maps a state to
  the states it can end in. \<open>Bol\<close> is \<^verbatim>\<open>^\<close>. \<open>Eol\<close> is \<^verbatim>\<open>$\<close>, which (without
  \<^verbatim>\<open>re.MULTILINE\<close>) holds at the end of the subject and also just before a newline that
  is its last character.
\<close>

datatype regex =
    Eps
  | Bol
  | Eol
  | Lit nat
  | Cls "nat \<Rightarrow> bool"
  | Cat regex regex
  | Alt regex regex

fun rep :: "nat \<Rightarrow> regex \<Rightarrow> regex" where
  "rep 0 r = Eps"
| "rep (Suc n) r = Cat r (rep n r)"

fun rmatch :: "regex \<Rightarrow> nat \<times> str \<Rightarrow> (nat \<times> str) list" where
  "rmatch Eps st = [st]"
| "rmatch Bol (n, s) = (if n = 0 then [(n, s)] else [])"
| "rmatch Eol (n, s) = (if s = [] \<or> s = [10] then [(n, s)] else [])"
| "rmatch (Lit c) (n, s) =
     (case s of [] \<Rightarrow> [] | x # xs \<Rightarrow> if x = c then [(Suc n, xs)] else [])"
| "rmatch (Cls cs) (n, s) =
     (case s of [] \<Rightarrow> [] | x # xs \<Rightarrow> if cs x then [(Suc n, xs)] else [])"
| "rmatch (Cat a b) st = concat (map (rmatch b) (rmatch a st))"
| "rmatch (Alt a b) st = rmatch a st @ rmatch b st"

text \<open>\<^verbatim>\<open>re.compile(p).match(s)\<close> is a match object, hence true, when \<open>p\<close> matches at 0.\<close>

definition re_match :: "regex \<Rightarrow> str \<Rightarrow> bool" where
  "re_match p s = (rmatch p (0, s) \<noteq> [])"

text \<open>
  \<^verbatim>\<open>[a-f\d]\<close>: the pattern is a \<^verbatim>\<open>str\<close> pattern compiled without \<^verbatim>\<open>re.ASCII\<close>, so
  \<^verbatim>\<open>\d\<close> is every Unicode decimal digit: 0-9, and from 128 on what the database says.
  Then \<^verbatim>\<open>^i-(?:[a-f\d]{8}|[a-f\d]{17})$\<close>.
\<close>

definition decimal_digit :: "world \<Rightarrow> nat \<Rightarrow> bool" where
  "decimal_digit w c = ((48 \<le> c \<and> c \<le> 57) \<or> (128 \<le> c \<and> unicode_decimal w c))"

definition hex_class :: "world \<Rightarrow> regex" where
  "hex_class w = Cls (\<lambda>c. (97 \<le> c \<and> c \<le> 102) \<or> decimal_digit w c)"

definition instance_id_pattern :: "world \<Rightarrow> regex" where
  "instance_id_pattern w =
     Cat Bol (Cat (Lit (cp CHR ''i'')) (Cat (Lit (cp CHR ''-''))
       (Cat (Alt (rep 8 (hex_class w)) (rep 17 (hex_class w))) Eol)))"

section \<open>commonlib: \<^verbatim>\<open>ECSNode\<close> and \<^verbatim>\<open>SNSTopic\<close>\<close>

text \<open>
  The handler of a \<^verbatim>\<open>ClientError\<close>, the same in three places:
  \<^verbatim>\<open>code = error.response.get("Error", None).get("Code", None)\<close>, likewise the message,
  then \<^verbatim>\<open>raise Exception(f"{prefix}{code} : {message}")\<close>. An \<^verbatim>\<open>AttributeError\<close>
  raised inside the handler leaves the function as it is.
\<close>

definition client_error :: "world \<Rightarrow> str \<Rightarrow> pyval \<Rightarrow> exn" where
  "client_error w prefix response =
     (case py_get response (u ''Error'') of
        Inl e \<Rightarrow> e
      | Inr err \<Rightarrow>
          (case py_get err (u ''Code'') of
             Inl e \<Rightarrow> e
           | Inr code \<Rightarrow>
               (case py_get err (u ''Message'') of
                  Inl e \<Rightarrow> e
                | Inr message \<Rightarrow> Exception (prefix @ py_str w code @ (u '' : '') @ py_str w message))))"

text \<open>The body of the \<^verbatim>\<open>try\<close> of \<^verbatim>\<open>fetch_ec2_details\<close>.\<close>

definition fetch_ec2_details_try ::
  "world \<Rightarrow> pyval \<Rightarrow> pyval \<Rightarrow> trace \<Rightarrow> (exn + str \<times> pyval \<times> pyval) \<times> trace" where
  "fetch_ec2_details_try w node_ecs_arn ecs_cluster tr =
     (case call w tr (DescribeContainerInstances ecs_cluster node_ecs_arn) of
        (Inl e, tr1) \<Rightarrow> (Inl e, tr1)
      | (Inr resp, tr1) \<Rightarrow>
     (case subscripts resp [K (u ''containerInstances''), I 0] of
        Inl e \<Rightarrow> (Inl e, tr1)
      | Inr container_instance \<Rightarrow>
     (case getitem_str container_instance (u ''ec2InstanceId'') of
        Inl e \<Rightarrow> (Inl e, tr1)
      | Inr node_id \<Rightarrow>
     (case getitem_str container_instance (u ''agentConnected'') of
        Inl e \<Rightarrow> (Inl e, tr1)
      | Inr agent_connected \<Rightarrow>
     (case node_id of
        PStr nid \<Rightarrow>
          if re_match (instance_id_pattern w) nid
          then (case call w tr1 (DescribeInstances nid) of
                  (Inl e, tr2) \<Rightarrow> (Inl e, tr2)
                | (Inr r, tr2) \<Rightarrow>
                    (case subscripts r [K (u ''Reservations''), I 0, K (u ''Instances''), I 0,
                                        K (u ''State''), K (u ''Name'')] of
                       Inl e \<Rightarrow> (Inl e, tr2)
                     | Inr instance_status \<Rightarrow>
                         (Inr (nid, instance_status, agent_connected), tr2)))
          else (case call w tr1 (DescribeInstanceInformation nid) of
                  (Inl e, tr2) \<Rightarrow> (Inl e, tr2)
                | (Inr r, tr2) \<Rightarrow>
                    (case subscripts r [K (u ''InstanceInformationList''), I 0, K (u ''PingStatus'')] of
                       Inl e \<Rightarrow> (Inl e, tr2)
                     | Inr ping_status \<Rightarrow>
                         (Inr (nid,
                               if ping_status = PStr (u ''Online'')
                               then PStr (u ''running'') else PStr (u ''not-running''),
                               agent_connected), tr2)))
      | _ \<Rightarrow> (Inl TypeError, tr1))))))"

definition fetch_ec2_details ::
  "world \<Rightarrow> pyval \<Rightarrow> pyval \<Rightarrow> trace \<Rightarrow> (exn + str \<times> pyval \<times> pyval) \<times> trace" where
  "fetch_ec2_details w node_ecs_arn ecs_cluster tr =
     (case fetch_ec2_details_try w node_ecs_arn ecs_cluster tr of
        (Inr v, tr') \<Rightarrow> (Inr v, tr')
      | (Inl (ClientError response), tr') \<Rightarrow>
          (Inl (client_error w
             (u ''Error: An error occurred when fetching instance details - '') response), tr')
      | (Inl e, tr') \<Rightarrow>
          (Inl (Exception
             ((u ''Error: An error occurred when fetching instance details - '') @ str_exn w e)), tr'))"

text \<open>
  The object. \<open>ec2_id\<close> is a string: \<^verbatim>\<open>match\<close> raises on anything else, so no node is
  built with another value there.
\<close>

record ECSNode =
  ec2_id :: str
  instance_status :: pyval
  agent_connected :: pyval
  cluster_arn :: pyval

definition ECSNode_init ::
  "world \<Rightarrow> pyval \<Rightarrow> pyval \<Rightarrow> trace \<Rightarrow> (exn + ECSNode) \<times> trace" where
  "ECSNode_init w node_ecs_arn ecs_cluster tr =
     (case fetch_ec2_details w node_ecs_arn ecs_cluster tr of
        (Inl e, tr') \<Rightarrow> (Inl e, tr')
      | (Inr (nid, st, ac), tr') \<Rightarrow>
          (Inr \<lparr>ec2_id = nid, instance_status = st, agent_connected = ac,
                cluster_arn = ecs_cluster\<rparr>, tr'))"

text \<open>
  \<^verbatim>\<open>get_ec2_item\<close> builds a dictionary with three fixed keys, and its callers subscript
  it with those keys only; it is a record here.
\<close>

record ec2_item =
  ec2InstanceId :: str
  clusterArn :: pyval
  agentConnected :: pyval

definition get_ec2_item :: "ECSNode \<Rightarrow> ec2_item" where
  "get_ec2_item self =
     \<lparr>ec2InstanceId = ec2_id self, clusterArn = cluster_arn self,
      agentConnected = agent_connected self\<rparr>"

definition is_ec2_running :: "ECSNode \<Rightarrow> bool" where
  "is_ec2_running self = (if instance_status self = PStr (u ''running'') then True else False)"

definition is_agent_connected :: "ECSNode \<Rightarrow> bool" where
  "is_agent_connected self = (if truthy (agent_connected self) then True else False)"

text \<open>
  The list comprehension
  \<^verbatim>\<open>[e for e in cluster_tags if (e['key'] == tag_key and e['value'] == tag_value)]\<close>;
  \<^verbatim>\<open>and\<close> reads the value only when the key is equal.
\<close>

fun tag_result :: "str \<Rightarrow> str \<Rightarrow> pyval list \<Rightarrow> exn + pyval list" where
  "tag_result tag_key tag_value [] = Inr []"
| "tag_result tag_key tag_value (element # rest) =
     (case getitem_str element (u ''key'') of
        Inl e \<Rightarrow> Inl e
      | Inr k \<Rightarrow>
          if k = PStr tag_key
          then (case getitem_str element (u ''value'') of
                  Inl e \<Rightarrow> Inl e
                | Inr v \<Rightarrow>
                    (case tag_result tag_key tag_value rest of
                       Inl e \<Rightarrow> Inl e
                     | Inr found \<Rightarrow> Inr (if v = PStr tag_value then element # found else found)))
          else tag_result tag_key tag_value rest)"

definition does_cluster_have_tags_try ::
  "world \<Rightarrow> ECSNode \<Rightarrow> str \<Rightarrow> str \<Rightarrow> trace \<Rightarrow> (exn + bool) \<times> trace" where
  "does_cluster_have_tags_try w self tag_key tag_value tr =
     (case call w tr (DescribeClusters (cluster_arn self)) of
        (Inl e, tr1) \<Rightarrow> (Inl e, tr1)
      | (Inr resp, tr1) \<Rightarrow>
     (case subscripts resp [K (u ''clusters''), I 0, K (u ''tags'')] of
        Inl e \<Rightarrow> (Inl e, tr1)
      | Inr cluster_tags \<Rightarrow>
     (case py_iter cluster_tags of
        Inl e \<Rightarrow> (Inl e, tr1)
      | Inr elements \<Rightarrow>
     (case tag_result tag_key tag_value elements of
        Inl e \<Rightarrow> (Inl e, tr1)
      | Inr found \<Rightarrow> (Inr (if found \<noteq> [] then True else False), tr1)))))"

definition does_cluster_have_tags ::
  "world \<Rightarrow> ECSNode \<Rightarrow> str option \<Rightarrow> str option \<Rightarrow> trace \<Rightarrow> (exn + bool) \<times> trace" where
  "does_cluster_have_tags w self tag_key tag_value tr =
     (case (tag_key, tag_value) of
        (Some k, Some v) \<Rightarrow>
          (case does_cluster_have_tags_try w self k v tr of
             (Inr b, tr') \<Rightarrow> (Inr b, tr')
           | (Inl (ClientError response), tr') \<Rightarrow>
               (Inl (client_error w
                  (u ''Error: An error occurred when checking Cluster tags - '') response), tr')
           | (Inl e, tr') \<Rightarrow>
               (Inl (Exception (u ''Error: An error occurred when checking Cluster tags.'')), tr'))
      | _ \<Rightarrow> (Inr False, tr))"

definition send_email ::
  "world \<Rightarrow> pyval \<Rightarrow> str \<Rightarrow> str \<Rightarrow> trace \<Rightarrow> (exn + unit) \<times> trace" where
  "send_email w topic_arn email_subject email_body tr =
     (case call w tr (Publish topic_arn email_body email_subject) of
        (Inr r, tr') \<Rightarrow> (Inr (), tr')
      | (Inl (ClientError response), tr') \<Rightarrow>
          (Inl (client_error w
             (u ''Error: An error occurred when sending the e-mail - '') response), tr')
      | (Inl e, tr') \<Rightarrow>
          (Inl (Exception
             ((u ''Error: An error occurred when sending the e-mail - '') @ str_exn w e)), tr'))"


section \<open>The Lambda handler\<close>

text \<open>The four values read from the environment at the head of \<^verbatim>\<open>handler\<close>.\<close>

record config =
  tag_key :: "str option"
  tag_value :: "str option"
  check_all_clusters :: str
  email_notification :: pyval

definition read_config :: "world \<Rightarrow> config" where
  "read_config w =
     \<lparr>tag_key = environ w (u ''monitoringTagKeyName''),
      tag_value = environ w (u ''monitoringTagKeyValue''),
      check_all_clusters =
        (case environ w (u ''checkAllClusters'') of None \<Rightarrow> (u ''false'') | Some s \<Rightarrow> s),
      email_notification =
        (case environ w (u ''sendEmailNotification'') of None \<Rightarrow> PBool False | Some s \<Rightarrow> PStr s)\<rparr>"

text \<open>How the body of the loop ends: the next record, \<^verbatim>\<open>return\<close>, or an exception.\<close>

datatype flow = Next | Return | Raise exn

text \<open>\<^verbatim>\<open>json.loads(record.get("body", None))\<close>: anything but a string is a type error.\<close>

definition loads :: "world \<Rightarrow> pyval \<Rightarrow> exn + pyval" where
  "loads w body = (case body of PStr s \<Rightarrow> json_loads w s | _ \<Rightarrow> Inl TypeError)"

text \<open>The two sanity conditions; \<^verbatim>\<open>or\<close> does not read its second operand when the
  first is true.\<close>

definition unsupported_event :: "pyval \<Rightarrow> exn + bool" where
  "unsupported_event payload =
     (case getitem_str payload (u ''source'') of
        Inl e \<Rightarrow> Inl e
      | Inr src \<Rightarrow>
          if src \<noteq> PStr (u ''aws.ecs'') then Inr True
          else (case getitem_str payload (u ''detail-type'') of
                  Inl e \<Rightarrow> Inl e
                | Inr dt \<Rightarrow> Inr (dt \<noteq> PStr (u ''ECS Container Instance State Change''))))"

definition reconnected_or_not_active :: "pyval \<Rightarrow> exn + bool" where
  "reconnected_or_not_active payload =
     (case subscripts payload [K (u ''detail''), K (u ''agentConnected'')] of
        Inl e \<Rightarrow> Inl e
      | Inr ac \<Rightarrow>
          if ac \<noteq> PBool False then Inr True
          else (case subscripts payload [K (u ''detail''), K (u ''status'')] of
                  Inl e \<Rightarrow> Inl e
                | Inr st \<Rightarrow> Inr (st \<noteq> PStr (u ''ACTIVE''))))"

text \<open>The condition of the \<^verbatim>\<open>if\<close> that guards the alert: the tag query is issued only
  when \<^verbatim>\<open>check_all_clusters\<close> does not switch it off.\<close>

definition eligible :: "world \<Rightarrow> config \<Rightarrow> ECSNode \<Rightarrow> trace \<Rightarrow> (exn + bool) \<times> trace" where
  "eligible w cfg ecs_instance tr =
     (case (if lower w (check_all_clusters cfg) \<in> set [(u ''true''), (u ''yes'')] then (Inr True, tr)
            else does_cluster_have_tags w ecs_instance (tag_key cfg) (tag_value cfg) tr) of
        (Inl e, tr') \<Rightarrow> (Inl e, tr')
      | (Inr monitored, tr') \<Rightarrow>
          (Inr (monitored \<and> is_ec2_running ecs_instance \<and> \<not> is_agent_connected ecs_instance),
           tr'))"

text \<open>The branch taken when the condition holds; \<open>seen\<close> is
  \<^verbatim>\<open>already_processed_nodes\<close>. \<^verbatim>\<open>custom_actions\<close> is \<^verbatim>\<open>pass\<close>.\<close>

definition alert ::
  "world \<Rightarrow> config \<Rightarrow> ECSNode \<Rightarrow> str list \<Rightarrow> trace \<Rightarrow> flow \<times> str list \<times> trace" where
  "alert w cfg ecs_instance seen tr =
     (let node_id = ec2InstanceId (get_ec2_item ecs_instance)
      in if node_id \<in> set seen then (Next, seen, tr)
         else
           let seen' = seen @ [node_id];
               notification_text =
                 (u ''[ISSUE] ECS Container Instance '') @ node_id @ (u '' from Cluster '')
                 @ py_str w (clusterArn (get_ec2_item ecs_instance))
                 @ (u '' has the ECS Agent disconnected.'')
           in (case send_email w (email_notification cfg)
                       ((u ''[ISSUE] ECS Instance - '') @ node_id) notification_text tr of
                 (Inl e, tr1) \<Rightarrow> (Raise e, seen', tr1)
               | (Inr sent, tr1) \<Rightarrow>
                   (let parts = rsplit1 (cp CHR ''/'') (py_str w (clusterArn (get_ec2_item ecs_instance)))
                    in if 1 < length parts
                       then (Next, seen',
                             tr1 @ [LogWarning (parts ! 1 @ (u '' '')
                                      @ ec2InstanceId (get_ec2_item ecs_instance))])
                       else (Raise IndexError, seen', tr1))))"

text \<open>
  The body of the \<^verbatim>\<open>for\<close> loop, in three parts. \<open>resolve\<close> decodes the record, makes
  the sanity checks and builds the node; it ends the iteration (\<open>Inl\<close>) or gives the node.
  \<open>examine\<close> adds the condition of the \<^verbatim>\<open>if\<close>. Neither touches the list of processed
  nodes, which only the alert branch reads and writes.
\<close>

definition resolve :: "world \<Rightarrow> pyval \<Rightarrow> trace \<Rightarrow> (flow + ECSNode) \<times> trace" where
  "resolve w record tr =
     (case py_get record (u ''body'') of
        Inl e \<Rightarrow> (Inl (Raise e), tr)
      | Inr body \<Rightarrow>
     (case loads w body of
        Inl e \<Rightarrow> (Inl (Raise e), tr)
      | Inr payload \<Rightarrow>
     if payload = PNone
     then (Inl (Raise (ValueError (u ''Message empty! No details to process.''))), tr)
     else
     (case unsupported_event payload of
        Inl e \<Rightarrow> (Inl (Raise e), tr)
      | Inr True \<Rightarrow>
          (Inl (Raise (ValueError
             (u ''Only 'aws.ecs' events and Instance state changes are supported.''))), tr)
      | Inr False \<Rightarrow>
     (case reconnected_or_not_active payload of
        Inl e \<Rightarrow> (Inl (Raise e), tr)
      | Inr True \<Rightarrow> (Inl Return, tr)
      | Inr False \<Rightarrow>
     (case py_get payload (u ''detail'') of
        Inl e \<Rightarrow> (Inl (Raise e), tr)
      | Inr detail \<Rightarrow>
     (case py_get detail (u ''containerInstanceArn'') of
        Inl e \<Rightarrow> (Inl (Raise e), tr)
      | Inr node_ecs_arn \<Rightarrow>
     (case py_get detail (u ''clusterArn'') of
        Inl e \<Rightarrow> (Inl (Raise e), tr)
      | Inr ecs_cluster \<Rightarrow>
     (case ECSNode_init w node_ecs_arn ecs_cluster tr of
        (Inl e, tr1) \<Rightarrow> (Inl (Raise e), tr1)
      | (Inr ecs_instance, tr1) \<Rightarrow> (Inr ecs_instance, tr1)))))))))"

datatype verdict = Done flow | Eligible ECSNode

definition examine :: "world \<Rightarrow> config \<Rightarrow> pyval \<Rightarrow> trace \<Rightarrow> verdict \<times> trace" where
  "examine w cfg record tr =
     (case resolve w record tr of
        (Inl f, tr1) \<Rightarrow> (Done f, tr1)
      | (Inr ecs_instance, tr1) \<Rightarrow>
          (case eligible w cfg ecs_instance tr1 of
             (Inl e, tr2) \<Rightarrow> (Done (Raise e), tr2)
           | (Inr True, tr2) \<Rightarrow> (Eligible ecs_instance, tr2)
           | (Inr False, tr2) \<Rightarrow> (Done Next, tr2)))"

definition handler_record ::
  "world \<Rightarrow> config \<Rightarrow> pyval \<Rightarrow> str list \<Rightarrow> trace \<Rightarrow> flow \<times> str list \<times> trace" where
  "handler_record w cfg record seen tr =
     (case examine w cfg record tr of
        (Done f, tr') \<Rightarrow> (f, seen, tr')
      | (Eligible ecs_instance, tr') \<Rightarrow> alert w cfg ecs_instance seen tr')"

text \<open>The \<^verbatim>\<open>for\<close> loop: it goes on only after \<open>Next\<close>.\<close>

fun handler_loop ::
  "world \<Rightarrow> config \<Rightarrow> pyval list \<Rightarrow> str list \<Rightarrow> trace \<Rightarrow> flow \<times> str list \<times> trace" where
  "handler_loop w cfg [] seen tr = (Next, seen, tr)"
| "handler_loop w cfg (record # records) seen tr =
     (case handler_record w cfg record seen tr of
        (Next, seen', tr') \<Rightarrow> handler_loop w cfg records seen' tr'
      | (Return, seen', tr') \<Rightarrow> (Return, seen', tr')
      | (Raise e, seen', tr') \<Rightarrow> (Raise e, seen', tr'))"

text \<open>The body of the \<^verbatim>\<open>try\<close> of \<^verbatim>\<open>handler\<close>, from an empty list of processed nodes
  and an empty trace.\<close>

definition handler_try :: "world \<Rightarrow> pyval \<Rightarrow> flow \<times> str list \<times> trace" where
  "handler_try w event =
     (case getitem_str event (u ''Records'') of
        Inl e \<Rightarrow> (Raise e, [], [])
      | Inr records \<Rightarrow>
          (case py_iter records of
             Inl e \<Rightarrow> (Raise e, [], [])
           | Inr rs \<Rightarrow> handler_loop w (read_config w) rs [] []))"

text \<open>\<^verbatim>\<open>handler\<close>: what the invoking environment sees, and everything that was asked of
  the collaborators. \<^verbatim>\<open>except Exception\<close> catches every exception of the model.\<close>

definition handler :: "world \<Rightarrow> pyval \<Rightarrow> (exn + unit) \<times> trace" where
  "handler w event =
     (case handler_try w event of
        (Raise error, seen, tr) \<Rightarrow>
          (Inl (Exception ((u ''Error: execution error - '') @ str_exn w error)), tr)
      | (Next, seen, tr) \<Rightarrow> (Inr (), tr)
      | (Return, seen, tr) \<Rightarrow> (Inr (), tr))"

text \<open>An SQS event with the given records.\<close>

definition sqs_event :: "pyval list \<Rightarrow> pyval" where
  "sqs_event records = PDict [((u ''Records''), PList records)]"


section \<open>Reading a trace\<close>

text \<open>The subjects of the notifications sent, in order.\<close>

fun subjects :: "trace \<Rightarrow> str list" where
  "subjects [] = []"
| "subjects (Publish topic body subject # tr) = subject # subjects tr"
| "subjects (e # tr) = subjects tr"

text \<open>The cluster-tag queries issued.\<close>

fun tag_queries :: "trace \<Rightarrow> pyval list" where
  "tag_queries [] = []"
| "tag_queries (DescribeClusters c # tr) = c # tag_queries tr"
| "tag_queries (e # tr) = tag_queries tr"

text \<open>\<^verbatim>\<open>email_subject=f"[ISSUE] ECS Instance - {node_id}"\<close>.\<close>

definition subject_for :: "str \<Rightarrow> str" where
  "subject_for node_id = (u ''[ISSUE] ECS Instance - '') @ node_id"

section \<open>The classification as the specification words it\<close>

text \<open>
  The specification's reading of the pattern: \<^verbatim>\<open>i-\<close> followed by exactly 8 or exactly
  17 lowercase hexadecimal characters, and nothing else.
\<close>

definition lower_hex :: "nat \<Rightarrow> bool" where
  "lower_hex c = (c \<in> set (u ''0123456789abcdef''))"

definition spec_vm_identifier :: "str \<Rightarrow> bool" where
  "spec_vm_identifier s =
     (take 2 s = (u ''i-'') \<and> (length (drop 2 s) = 8 \<or> length (drop 2 s) = 17)
      \<and> list_all lower_hex (drop 2 s))"

section \<open>Example worlds\<close>

text \<open>Responses in the shape boto3 gives them, cut down to the fields that are read.\<close>

definition container_instances_response :: "pyval \<Rightarrow> pyval \<Rightarrow> pyval" where
  "container_instances_response node_id agent =
     PDict [((u ''containerInstances''),
             PList [PDict [((u ''ec2InstanceId''), node_id), ((u ''agentConnected''), agent)]]),
            ((u ''failures''), PList [])]"

definition instances_response :: "str \<Rightarrow> pyval" where
  "instances_response state =
     PDict [((u ''Reservations''),
             PList [PDict [((u ''Instances''),
                            PList [PDict [((u ''State''), PDict [((u ''Name''), PStr state)])]])]])]"

definition instance_information_response :: "str \<Rightarrow> pyval" where
  "instance_information_response ping =
     PDict [((u ''InstanceInformationList''), PList [PDict [((u ''PingStatus''), PStr ping)]])]"

definition tag :: "str \<Rightarrow> str \<Rightarrow> pyval" where
  "tag k v = PDict [((u ''key''), PStr k), ((u ''value''), PStr v)]"

definition clusters_response :: "pyval list \<Rightarrow> pyval" where
  "clusters_response tags = PDict [((u ''clusters''), PList [PDict [((u ''tags''), PList tags)]])]"

definition client_error_response :: "str \<Rightarrow> str \<Rightarrow> pyval" where
  "client_error_response code message =
     PDict [((u ''Error''), PDict [((u ''Code''), PStr code), ((u ''Message''), PStr message)])]"

text \<open>What each kind of request is answered with, whatever came before.\<close>

record answers =
  container_instances :: "exn + pyval"
  instances :: "exn + pyval"
  instance_information :: "exn + pyval"
  clusters :: "exn + pyval"
  published :: "exn + pyval"

definition answer :: "answers \<Rightarrow> trace \<Rightarrow> exn + pyval" where
  "answer a tr =
     (case last tr of
        DescribeContainerInstances c i \<Rightarrow> container_instances a
      | DescribeInstances i \<Rightarrow> instances a
      | DescribeInstanceInformation i \<Rightarrow> instance_information a
      | DescribeClusters c \<Rightarrow> clusters a
      | Publish t b s \<Rightarrow> published a
      | LogWarning l \<Rightarrow> Inr PNone)"

text \<open>A running EC2 instance whose agent is disconnected, in a cluster tagged
  \<^verbatim>\<open>monitor=yes\<close>.\<close>

definition healthy :: answers where
  "healthy =
     \<lparr>container_instances = Inr (container_instances_response (PStr (u ''i-0123abcd'')) (PBool False)),
      instances = Inr (instances_response (u ''running'')),
      instance_information = Inr (instance_information_response (u ''Online'')),
      clusters = Inr (clusters_response [tag (u ''team'') (u ''core''), tag (u ''monitor'') (u ''yes'')]),
      published = Inr (PDict [((u ''MessageId''), PStr (u ''5e1c''))])\<rparr>"

text \<open>Event payloads and the message bodies \<^verbatim>\<open>json.loads\<close> decodes them from. The decoder
  of the examples is a table of these bodies. Of any other text it decides only this: an
  empty text, and a text whose first character is neither white space, nor a byte order
  mark, nor the beginning of a JSON value, is refused at that character with the message
  \<^verbatim>\<open>Expecting value: line 1 column 1 (char 0)\<close>. The examples use no other body.\<close>

definition state_change :: "str \<Rightarrow> pyval \<Rightarrow> str \<Rightarrow> pyval" where
  "state_change cluster agent status =
     PDict [((u ''source''), PStr (u ''aws.ecs'')),
            ((u ''detail-type''), PStr (u ''ECS Container Instance State Change'')),
            ((u ''detail''),
             PDict [((u ''containerInstanceArn''),
                     PStr (u ''arn:aws:ecs:eu-west-1:111122223333:container-instance/demo/0f9c'')),
                    ((u ''clusterArn''), PStr cluster),
                    ((u ''agentConnected''), agent),
                    ((u ''status''), PStr status)])]"

definition demo_cluster :: str where
  "demo_cluster = (u ''arn:aws:ecs:eu-west-1:111122223333:cluster/demo'')"

definition body_disconnected :: str where
  \<open>body_disconnected = (u ''{"source":"aws.ecs","detail-type":"ECS Container Instance State Change","detail":{"containerInstanceArn":"arn:aws:ecs:eu-west-1:111122223333:container-instance/demo/0f9c","clusterArn":"arn:aws:ecs:eu-west-1:111122223333:cluster/demo","agentConnected":false,"status":"ACTIVE"}}'')\<close>

definition body_reconnected :: str where
  \<open>body_reconnected = (u ''{"source":"aws.ecs","detail-type":"ECS Container Instance State Change","detail":{"containerInstanceArn":"arn:aws:ecs:eu-west-1:111122223333:container-instance/demo/0f9c","clusterArn":"arn:aws:ecs:eu-west-1:111122223333:cluster/demo","agentConnected":true,"status":"ACTIVE"}}'')\<close>

definition body_draining :: str where
  \<open>body_draining = (u ''{"source":"aws.ecs","detail-type":"ECS Container Instance State Change","detail":{"containerInstanceArn":"arn:aws:ecs:eu-west-1:111122223333:container-instance/demo/0f9c","clusterArn":"arn:aws:ecs:eu-west-1:111122223333:cluster/demo","agentConnected":false,"status":"DRAINING"}}'')\<close>

definition body_short_cluster :: str where
  \<open>body_short_cluster = (u ''{"source":"aws.ecs","detail-type":"ECS Container Instance State Change","detail":{"containerInstanceArn":"arn:aws:ecs:eu-west-1:111122223333:container-instance/demo/0f9c","clusterArn":"demo","agentConnected":false,"status":"ACTIVE"}}'')\<close>

definition body_other_source :: str where
  \<open>body_other_source = (u ''{"source":"aws.ec2","detail-type":"EC2 Instance State-change Notification","detail":{}}'')\<close>

definition json_value_start :: "nat \<Rightarrow> bool" where
  "json_value_start c = (c \<in> set ([9, 10, 13, 32, 34, 65279] @ u ''-0123456789[{ntfNI''))"

definition example_json_loads :: "str \<Rightarrow> exn + pyval" where
  "example_json_loads s =
     (if s = body_disconnected then Inr (state_change demo_cluster (PBool False) (u ''ACTIVE''))
      else if s = body_reconnected then Inr (state_change demo_cluster (PBool True) (u ''ACTIVE''))
      else if s = body_draining then Inr (state_change demo_cluster (PBool False) (u ''DRAINING''))
      else if s = body_short_cluster then Inr (state_change (u ''demo'') (PBool False) (u ''ACTIVE''))
      else if s = body_other_source
           then Inr (PDict [((u ''source''), PStr (u ''aws.ec2'')),
                            ((u ''detail-type''), PStr (u ''EC2 Instance State-change Notification'')),
                            ((u ''detail''), PDict [])])
      else if s = (u ''null'') then Inr PNone
      else if s = [] \<or> \<not> json_value_start (hd s)
           then Inl (Foreign (u ''JSONDecodeError'') (u ''Expecting value: line 1 column 1 (char 0)''))
      else Inl (Foreign (u ''JSONDecodeError'') (u ''<not among the examples>'')))"

definition message :: "str \<Rightarrow> pyval" where
  "message body = PDict [((u ''messageId''), PStr (u ''b1f7'')), ((u ''body''), PStr body)]"

text \<open>\<^verbatim>\<open>str()\<close> of the values and exceptions that occur in the examples.\<close>

definition example_repr :: "pyval \<Rightarrow> str" where
  "example_repr v =
     (case v of
        PNone \<Rightarrow> (u ''None'')
      | PBool b \<Rightarrow> (if b then (u ''True'') else (u ''False''))
      | _ \<Rightarrow> (u ''<object>''))"

definition example_exn_str :: "exn \<Rightarrow> str" where
  "example_exn_str e =
     (case e of
        IndexError \<Rightarrow> (u ''list index out of range'')
      | KeyError (PStr k) \<Rightarrow> [39] @ k @ [39]
      | Foreign c m \<Rightarrow> m
      | _ \<Rightarrow> (u ''<exception>''))"

text \<open>
  The part of the Unicode database the examples need: the Arabic-Indic digits (U+0660 to
  U+0669) and the fullwidth digits (U+FF10 to U+FF19) are decimal digits. No example
  lower-cases a string that is not pure ASCII.
\<close>

definition example_decimal :: "nat \<Rightarrow> bool" where
  "example_decimal c = ((1632 \<le> c \<and> c \<le> 1641) \<or> (65296 \<le> c \<and> c \<le> 65305))"

definition example_world :: "(str \<times> str) list \<Rightarrow> answers \<Rightarrow> world" where
  "example_world env a =
     \<lparr>upstream = answer a, json_loads = example_json_loads, environ = map_of env,
      py_repr = example_repr, exn_str = example_exn_str,
      unicode_decimal = example_decimal, unicode_lower = map ascii_lower\<rparr>"

definition env_tagged :: "(str \<times> str) list" where
  "env_tagged =
     [((u ''monitoringTagKeyName''), (u ''monitor'')), ((u ''monitoringTagKeyValue''), (u ''yes'')),
      ((u ''sendEmailNotification''), (u ''arn:aws:sns:eu-west-1:111122223333:alerts''))]"

definition env_all_clusters :: "(str \<times> str) list" where
  "env_all_clusters =
     [((u ''checkAllClusters''), (u ''Yes'')),
      ((u ''sendEmailNotification''), (u ''arn:aws:sns:eu-west-1:111122223333:alerts''))]"

text \<open>The node the healthy world resolves to.\<close>

definition demo_node :: ECSNode where
  "demo_node =
     \<lparr>ec2_id = (u ''i-0123abcd''), instance_status = PStr (u ''running''),
      agent_connected = PBool False, cluster_arn = PStr demo_cluster\<rparr>"

definition stopped_node :: ECSNode where
  "stopped_node = demo_node\<lparr>instance_status := PStr (u ''stopped'')\<rparr>"

definition reconnected_node :: ECSNode where
  "reconnected_node = demo_node\<lparr>agent_connected := PBool True\<rparr>"

definition demo_instance_arn :: str where
  "demo_instance_arn = (u ''arn:aws:ecs:eu-west-1:111122223333:container-instance/demo/0f9c'')"

definition demo_topic :: pyval where
  "demo_topic = PStr (u ''arn:aws:sns:eu-west-1:111122223333:alerts'')"

text \<open>The requests made for the healthy node, and the notification about it.\<close>

definition demo_queries :: "str \<Rightarrow> trace" where
  "demo_queries cluster =
     [DescribeContainerInstances (PStr cluster) (PStr demo_instance_arn),
      DescribeInstances (u ''i-0123abcd'')]"

definition demo_publish :: "str \<Rightarrow> effect" where
  "demo_publish cluster =
     Publish demo_topic
       ((u ''[ISSUE] ECS Container Instance i-0123abcd from Cluster '') @ cluster
        @ (u '' has the ECS Agent disconnected.''))
       (u ''[ISSUE] ECS Instance - i-0123abcd'')"

text \<open>The trace of one alert in the tagged world, and in the world that monitors every
  cluster.\<close>

definition demo_alert_tagged :: trace where
  "demo_alert_tagged =
     demo_queries demo_cluster
     @ [DescribeClusters (PStr demo_cluster), demo_publish demo_cluster,
        LogWarning (u ''demo i-0123abcd'')]"

definition demo_alert_all :: trace where
  "demo_alert_all =
     demo_queries demo_cluster @ [demo_publish demo_cluster, LogWarning (u ''demo i-0123abcd'')]"

text \<open>A world in which the cluster of the container instance is not found.\<close>

definition cluster_not_found :: answers where
  "cluster_not_found =
     healthy\<lparr>container_instances :=
       Inl (ClientError (client_error_response (u ''ClusterNotFoundException'') (u ''Cluster not found.'')))\<rparr>"

text \<open>The healthy world, with the container instance resolving to another node identifier.\<close>

definition resolving_to :: "str \<Rightarrow> answers" where
  "resolving_to node_id =
     healthy\<lparr>container_instances :=
       Inr (container_instances_response (PStr node_id) (PBool False))\<rparr>"

text \<open>An upstream failure that is not a \<^verbatim>\<open>ClientError\<close>: botocore's \<^verbatim>\<open>HTTPClientError\<close>,
  with its message. Then the healthy world with the tag query, the publish, or the first
  node query failing that way, and with the tag query refused by the service.\<close>

definition connection_reset :: exn where
  "connection_reset =
     Foreign (u ''HTTPClientError'')
       (u ''An HTTP Client raised an unhandled exception: Connection reset by peer'')"

definition tags_unreachable :: answers where
  "tags_unreachable = healthy\<lparr>clusters := Inl connection_reset\<rparr>"

definition publish_unreachable :: answers where
  "publish_unreachable = healthy\<lparr>published := Inl connection_reset\<rparr>"

definition node_unreachable :: answers where
  "node_unreachable = healthy\<lparr>container_instances := Inl connection_reset\<rparr>"

definition tags_denied :: answers where
  "tags_denied =
     healthy\<lparr>clusters :=
       Inl (ClientError (client_error_response (u ''AccessDeniedException'')
              (u ''User is not authorized to perform: ecs:DescribeClusters'')))\<rparr>"

section \<open>Properties\<close>

subsection \<open>Literals\<close>

lemma cp_eq_iff [simp]: "cp a = cp b \<longleftrightarrow> a = b"
  by (simp add: cp_def)

lemma u_Nil [simp]: "u [] = []"
  by (simp add: u_def)

lemma u_Cons: "u (c # s) = cp c # u s"
  by (simp add: u_def)

lemma length_u [simp]: "length (u s) = length s"
  by (simp add: u_def)

lemma u_eq_iff [simp]: "u a = u b \<longleftrightarrow> a = b"
proof (induction a arbitrary: b)
  case Nil
  show ?case by (cases b) (simp_all add: u_Cons)
next
  case (Cons x a)
  show ?case by (cases b) (simp_all add: Cons.IH u_Cons)
qed

lemma u_eq_Nil [simp]: "u a = [] \<longleftrightarrow> a = []" "[] = u a \<longleftrightarrow> a = []"
  by (cases a; simp add: u_Cons)+

lemma cp_less: "cp c < 256"
  by (simp add: cp_def)

lemma u_append: "u (a @ b) = u a @ u b"
  by (simp add: u_def)

lemma u_append_assoc: "u a @ u b @ x = u (a @ b) @ x"
  by (simp add: u_def)

subsection \<open>The instance-id pattern\<close>

lemma rmatch_rep_Cls:
  "rmatch (rep k (Cls p)) (n, s) =
     (if k \<le> length s \<and> list_all p (take k s) then [(n + k, drop k s)] else [])"
proof (induction k arbitrary: n s)
  case 0
  show ?case by simp
next
  case (Suc k)
  show ?case
  proof (cases s)
    case Nil
    then show ?thesis by simp
  next
    case (Cons x xs)
    then show ?thesis using Suc.IH [of "Suc n" xs] by simp
  qed
qed

lemma re_match_instance_id_pattern:
  "re_match (instance_id_pattern w) s \<longleftrightarrow>
     (\<exists>r. s = cp CHR ''i'' # cp CHR ''-'' # r \<and>
       ((8 \<le> length r \<and> list_all (\<lambda>c. (97 \<le> c \<and> c \<le> 102) \<or> decimal_digit w c) (take 8 r)
            \<and> (drop 8 r = [] \<or> drop 8 r = [10]))
        \<or> (17 \<le> length r
            \<and> list_all (\<lambda>c. (97 \<le> c \<and> c \<le> 102) \<or> decimal_digit w c) (take 17 r)
            \<and> (drop 17 r = [] \<or> drop 17 r = [10]))))"
proof (cases s)
  case Nil
  then show ?thesis by (simp add: re_match_def instance_id_pattern_def)
next
  case (Cons a s1)
  show ?thesis
  proof (cases s1)
    case Nil
    then show ?thesis using Cons by (simp add: re_match_def instance_id_pattern_def)
  next
    case (Cons b r)
    then show ?thesis using \<open>s = a # s1\<close>
      by (simp add: re_match_def instance_id_pattern_def hex_class_def rmatch_rep_Cls)
  qed
qed

lemma lower_hex_iff: "lower_hex c \<longleftrightarrow> (97 \<le> c \<and> c \<le> 102) \<or> (48 \<le> c \<and> c \<le> 57)"
proof -
  have "set (u ''0123456789abcdef'')
          = {48, 49, 50, 51, 52, 53, 54, 55, 56, 57, 97, 98, 99, 100, 101, 102}"
    by (simp add: u_def cp_def)
  then show ?thesis unfolding lower_hex_def by (simp only:) (simp, arith)
qed

lemma hex_class_on_ascii:
  assumes "list_all (\<lambda>c. c < 128) xs"
  shows "list_all (\<lambda>c. (97 \<le> c \<and> c \<le> 102) \<or> decimal_digit w c) xs \<longleftrightarrow> list_all lower_hex xs"
  using assms by (induction xs) (auto simp: lower_hex_iff decimal_digit_def)

lemma drop_eq_single: "drop k r = [c] \<longleftrightarrow> length r = Suc k \<and> last r = c"
proof
  assume h: "drop k r = [c]"
  then have "length (drop k r) = 1" by simp
  then have l: "length r = Suc k" by simp
  have "r \<noteq> []" using l by auto
  moreover have "last (drop k r) = last r" using l by simp
  ultimately show "length r = Suc k \<and> last r = c" using h l by simp
next
  assume h: "length r = Suc k \<and> last r = c"
  then have "r \<noteq> []" by auto
  then have "r = butlast r @ [last r]" by simp
  moreover have "length (butlast r) = k" using h by simp
  ultimately have "drop k r = [last r]" by (metis append_eq_conv_conj)
  then show "drop k r = [c]" using h by simp
qed

lemma tail_cases:
  "k \<le> length r \<and> P (take k r) \<and> (drop k r = [] \<or> drop k r = [c]) \<longleftrightarrow>
     (length r = k \<and> P r) \<or> (length r = Suc k \<and> last r = c \<and> P (butlast r))"
proof -
  have a: "length r = Suc k \<Longrightarrow> take k r = butlast r" by (simp add: butlast_conv_take)
  have b: "length r = k \<Longrightarrow> take k r = r" by simp
  show ?thesis unfolding drop_eq_single using a b by (auto simp: not_le)
qed

lemma spec_vm_identifier_iff:
  "spec_vm_identifier s \<longleftrightarrow>
     (\<exists>r. s = cp CHR ''i'' # cp CHR ''-'' # r \<and> (length r = 8 \<or> length r = 17)
          \<and> list_all lower_hex r)"
proof (cases s)
  case Nil
  then show ?thesis by (simp add: spec_vm_identifier_def u_Cons)
next
  case (Cons a s1)
  then show ?thesis by (cases s1) (auto simp: spec_vm_identifier_def u_Cons)
qed

text \<open>
  What the pattern accepts: \<^verbatim>\<open>i-\<close>, then 8 or 17 characters that are a-f or decimal
  digits, then nothing or one final newline.
\<close>

lemma pattern_accepts:
  "re_match (instance_id_pattern w) s \<longleftrightarrow>
     (\<exists>r. s = cp CHR ''i'' # cp CHR ''-'' # r \<and>
        ((length r = 8 \<or> length r = 17)
           \<and> list_all (\<lambda>c. (97 \<le> c \<and> c \<le> 102) \<or> decimal_digit w c) r
         \<or> (length r = Suc 8 \<or> length r = Suc 17) \<and> last r = 10
           \<and> list_all (\<lambda>c. (97 \<le> c \<and> c \<le> 102) \<or> decimal_digit w c) (butlast r)))"
  unfolding re_match_instance_id_pattern tail_cases by blast

text \<open>
  On the strings the specification has in mind, pure ASCII with no newline at the end, the
  pattern is the specification's: \<^verbatim>\<open>i-\<close> and exactly 8 or 17 lowercase hexadecimal
  characters.
\<close>

lemma pattern_is_spec_on_ascii_lines:
  assumes "list_all (\<lambda>c. c < 128) s" and "s = [] \<or> last s \<noteq> 10"
  shows "re_match (instance_id_pattern w) s \<longleftrightarrow> spec_vm_identifier s"
proof (cases "\<exists>r. s = cp CHR ''i'' # cp CHR ''-'' # r")
  case False
  then show ?thesis using pattern_accepts spec_vm_identifier_iff by blast
next
  case True
  then obtain r where s: "s = cp CHR ''i'' # cp CHR ''-'' # r" by blast
  have a: "list_all (\<lambda>c. c < 128) r" using assms(1) s by simp
  have l: "r = [] \<or> last r \<noteq> 10" using assms(2) s by (auto split: if_splits)
  have "re_match (instance_id_pattern w) s \<longleftrightarrow>
          (length r = 8 \<or> length r = 17)
          \<and> list_all (\<lambda>c. (97 \<le> c \<and> c \<le> 102) \<or> decimal_digit w c) r"
    unfolding pattern_accepts using s l by auto
  then show ?thesis
    unfolding spec_vm_identifier_iff using s hex_class_on_ascii [OF a] by auto
qed

lemma pattern_examples:
  "re_match (instance_id_pattern w) (u ''i-0123abcd'')"
  "re_match (instance_id_pattern w) (u ''i-0123456789abcdef0'')"
  "\<not> re_match (instance_id_pattern w) (u ''mi-0123456789abcdef0'')"
  "re_match (instance_id_pattern w) (u ''i-0123abcd'' @ [10])"
  by (simp_all add: re_match_def instance_id_pattern_def hex_class_def decimal_digit_def
        rmatch_rep_Cls u_def cp_def)

lemma pattern_example_unicode:
  "unicode_decimal w = example_decimal \<Longrightarrow>
     re_match (instance_id_pattern w)
       (u ''i-'' @ [1632, 1633, 1634, 1635, 1636, 1637, 1638, 1639])"
  by (simp add: re_match_def instance_id_pattern_def hex_class_def decimal_digit_def
        example_decimal_def rmatch_rep_Cls u_def cp_def)

lemma spec_examples:
  "spec_vm_identifier (u ''i-0123abcd'')"
  "spec_vm_identifier (u ''i-0123456789abcdef0'')"
  "\<not> spec_vm_identifier (u ''mi-0123456789abcdef0'')"
  "\<not> spec_vm_identifier (u ''i-0123abcd'' @ [10])"
  "\<not> spec_vm_identifier (u ''i-'' @ [1632, 1633, 1634, 1635, 1636, 1637, 1638, 1639])"
  by (simp_all add: spec_vm_identifier_def lower_hex_iff u_def cp_def)

subsection \<open>The example worlds, evaluated\<close>

lemma answer_simps:
  "answer a (tr @ [DescribeContainerInstances c i]) = container_instances a"
  "answer a (tr @ [DescribeInstances n]) = instances a"
  "answer a (tr @ [DescribeInstanceInformation n]) = instance_information a"
  "answer a (tr @ [DescribeClusters c]) = clusters a"
  "answer a (tr @ [Publish t b s]) = published a"
  by (simp_all add: answer_def)

lemma example_world_simps:
  "upstream (example_world env a) = answer a"
  "json_loads (example_world env a) = example_json_loads"
  "environ (example_world env a) = map_of env"
  "py_repr (example_world env a) = example_repr"
  "exn_str (example_world env a) = example_exn_str"
  "unicode_decimal (example_world env a) = example_decimal"
  by (simp_all add: example_world_def)

lemma example_container_instance:
  "subscripts (container_instances_response n a) [K (u ''containerInstances''), I 0] =
     Inr (PDict [((u ''ec2InstanceId''), n), ((u ''agentConnected''), a)])"
  by (simp add: container_instances_response_def getitem_str_def getitem_int_def)

lemma example_container_instance_fields:
  "getitem_str (PDict [((u ''ec2InstanceId''), n), ((u ''agentConnected''), a)]) (u ''ec2InstanceId'') = Inr n"
  "getitem_str (PDict [((u ''ec2InstanceId''), n), ((u ''agentConnected''), a)]) (u ''agentConnected'') = Inr a"
  by (simp_all add: getitem_str_def)

subsection \<open>Which query \<^verbatim>\<open>fetch_ec2_details\<close> issues\<close>

lemma fetch_ec2_details_trace:
  "snd (fetch_ec2_details w arn cl tr) = snd (fetch_ec2_details_try w arn cl tr)"
  by (simp add: fetch_ec2_details_def split: prod.splits sum.splits exn.splits)

lemma fetch_ec2_details_try_resolved:
  assumes "upstream w (tr @ [DescribeContainerInstances cl arn]) = Inr resp"
    and "subscripts resp [K (u ''containerInstances''), I 0] = Inr ci"
    and "getitem_str ci (u ''ec2InstanceId'') = Inr (PStr nid)"
    and "getitem_str ci (u ''agentConnected'') = Inr ac"
  shows "fetch_ec2_details_try w arn cl tr =
           (if re_match (instance_id_pattern w) nid
            then (case upstream w (tr @ [DescribeContainerInstances cl arn, DescribeInstances nid]) of
                    Inl e \<Rightarrow> (Inl e, tr @ [DescribeContainerInstances cl arn, DescribeInstances nid])
                  | Inr r \<Rightarrow>
                      (case subscripts r [K (u ''Reservations''), I 0, K (u ''Instances''), I 0,
                                          K (u ''State''), K (u ''Name'')] of
                         Inl e \<Rightarrow> (Inl e, tr @ [DescribeContainerInstances cl arn, DescribeInstances nid])
                       | Inr st \<Rightarrow> (Inr (nid, st, ac),
                                    tr @ [DescribeContainerInstances cl arn, DescribeInstances nid])))
            else (case upstream w (tr @ [DescribeContainerInstances cl arn,
                                         DescribeInstanceInformation nid]) of
                    Inl e \<Rightarrow> (Inl e, tr @ [DescribeContainerInstances cl arn,
                                             DescribeInstanceInformation nid])
                  | Inr r \<Rightarrow>
                      (case subscripts r [K (u ''InstanceInformationList''), I 0, K (u ''PingStatus'')] of
                         Inl e \<Rightarrow> (Inl e, tr @ [DescribeContainerInstances cl arn,
                                                  DescribeInstanceInformation nid])
                       | Inr ping \<Rightarrow>
                           (Inr (nid, if ping = PStr (u ''Online'') then PStr (u ''running'')
                                      else PStr (u ''not-running''), ac),
                            tr @ [DescribeContainerInstances cl arn,
                                  DescribeInstanceInformation nid]))))"
  unfolding fetch_ec2_details_try_def call_def
  by (simp only: assms prod.case sum.case pyval.case append_assoc append.simps)

lemma fetch_ec2_details_queries:
  assumes "upstream w (tr @ [DescribeContainerInstances cl arn]) = Inr resp"
    and "subscripts resp [K (u ''containerInstances''), I 0] = Inr ci"
    and "getitem_str ci (u ''ec2InstanceId'') = Inr (PStr nid)"
    and "getitem_str ci (u ''agentConnected'') = Inr ac"
  shows "snd (fetch_ec2_details w arn cl tr) =
           tr @ [DescribeContainerInstances cl arn,
                 if re_match (instance_id_pattern w) nid
                 then DescribeInstances nid else DescribeInstanceInformation nid]"
  unfolding fetch_ec2_details_trace fetch_ec2_details_try_resolved [OF assms]
  by (simp split: sum.splits)

lemma example_classification:
  "snd (fetch_ec2_details (example_world env (resolving_to nid)) arn cl []) =
     [DescribeContainerInstances cl arn,
      if re_match (instance_id_pattern (example_world env (resolving_to nid))) nid
      then DescribeInstances nid else DescribeInstanceInformation nid]"
proof -
  have up: "upstream (example_world env (resolving_to nid))
              ([] @ [DescribeContainerInstances cl arn])
            = Inr (container_instances_response (PStr nid) (PBool False))"
    by (simp only: example_world_simps answer_simps) (simp add: resolving_to_def)
  show ?thesis
    using fetch_ec2_details_queries
            [OF up example_container_instance example_container_instance_fields]
    by simp
qed

text \<open>
  C5. The identifiers the specification names are classified as it says: \<^verbatim>\<open>i-0123abcd\<close>
  and \<^verbatim>\<open>i-0123456789abcdef0\<close> take the virtual-machine path (the query is
  \<open>DescribeInstances\<close>) and \<^verbatim>\<open>mi-0123456789abcdef0\<close> the externally-registered path
  (\<open>DescribeInstanceInformation\<close>). But the pattern of the code accepts more than
  \<^verbatim>\<open>i-\<close> followed by exactly 8 or 17 lowercase hexadecimal characters: the identifier
  \<^verbatim>\<open>i-0123abcd\<close> with a newline at its end, and \<^verbatim>\<open>i-\<close> followed by the eight
  Arabic-Indic digits U+0660 to U+0667, take the virtual-machine path too.
\<close>

theorem vm_path_taken_outside_the_pattern:
  "snd (fetch_ec2_details (example_world env_tagged (resolving_to (u ''i-0123abcd'')))
         (PStr demo_instance_arn) (PStr demo_cluster) [])
     = [DescribeContainerInstances (PStr demo_cluster) (PStr demo_instance_arn),
        DescribeInstances (u ''i-0123abcd'')]
   \<and> snd (fetch_ec2_details (example_world env_tagged (resolving_to (u ''i-0123456789abcdef0'')))
         (PStr demo_instance_arn) (PStr demo_cluster) [])
     = [DescribeContainerInstances (PStr demo_cluster) (PStr demo_instance_arn),
        DescribeInstances (u ''i-0123456789abcdef0'')]
   \<and> snd (fetch_ec2_details (example_world env_tagged (resolving_to (u ''mi-0123456789abcdef0'')))
         (PStr demo_instance_arn) (PStr demo_cluster) [])
     = [DescribeContainerInstances (PStr demo_cluster) (PStr demo_instance_arn),
        DescribeInstanceInformation (u ''mi-0123456789abcdef0'')]
   \<and> snd (fetch_ec2_details (example_world env_tagged (resolving_to (u ''i-0123abcd'' @ [10])))
         (PStr demo_instance_arn) (PStr demo_cluster) [])
     = [DescribeContainerInstances (PStr demo_cluster) (PStr demo_instance_arn),
        DescribeInstances (u ''i-0123abcd'' @ [10])]
   \<and> \<not> spec_vm_identifier (u ''i-0123abcd'' @ [10])
   \<and> snd (fetch_ec2_details
         (example_world env_tagged
            (resolving_to (u ''i-'' @ [1632, 1633, 1634, 1635, 1636, 1637, 1638, 1639])))
         (PStr demo_instance_arn) (PStr demo_cluster) [])
     = [DescribeContainerInstances (PStr demo_cluster) (PStr demo_instance_arn),
        DescribeInstances (u ''i-'' @ [1632, 1633, 1634, 1635, 1636, 1637, 1638, 1639])]
   \<and> \<not> spec_vm_identifier (u ''i-'' @ [1632, 1633, 1634, 1635, 1636, 1637, 1638, 1639])"
  unfolding example_classification
  by (simp only: pattern_examples pattern_example_unicode [OF example_world_simps(6)]
        spec_examples if_True if_False simp_thms)

subsection \<open>The resolved node and the running predicate\<close>

lemma ECSNode_init_resolved:
  assumes "upstream w (tr @ [DescribeContainerInstances cl arn]) = Inr resp"
    and "subscripts resp [K (u ''containerInstances''), I 0] = Inr ci"
    and "getitem_str ci (u ''ec2InstanceId'') = Inr (PStr nid)"
    and "getitem_str ci (u ''agentConnected'') = Inr ac"
    and "upstream w (tr @ [DescribeContainerInstances cl arn,
                           if re_match (instance_id_pattern w) nid
                           then DescribeInstances nid else DescribeInstanceInformation nid]) = Inr r"
    and "subscripts r (if re_match (instance_id_pattern w) nid
                       then [K (u ''Reservations''), I 0, K (u ''Instances''), I 0, K (u ''State''), K (u ''Name'')]
                       else [K (u ''InstanceInformationList''), I 0, K (u ''PingStatus'')]) = Inr reported"
  shows "ECSNode_init w arn cl tr =
           (Inr \<lparr>ec2_id = nid,
                 instance_status =
                   (if re_match (instance_id_pattern w) nid then reported
                    else if reported = PStr (u ''Online'') then PStr (u ''running'')
                    else PStr (u ''not-running'')),
                 agent_connected = ac, cluster_arn = cl\<rparr>,
            tr @ [DescribeContainerInstances cl arn,
                  if re_match (instance_id_pattern w) nid
                  then DescribeInstances nid else DescribeInstanceInformation nid])"
proof (cases "re_match (instance_id_pattern w) nid")
  case True
  then show ?thesis
    using assms(5,6)
    unfolding ECSNode_init_def fetch_ec2_details_def
      fetch_ec2_details_try_resolved [OF assms(1-4)]
    by simp
next
  case False
  then show ?thesis
    using assms(5,6)
    unfolding ECSNode_init_def fetch_ec2_details_def
      fetch_ec2_details_try_resolved [OF assms(1-4)]
    by simp
qed

text \<open>
  C6. For a node whose container-instance record and state query are answered,
  \<open>ECSNode_init\<close> returns the node, and \<open>is_ec2_running\<close> of a node is true iff its
  status equals \<^verbatim>\<open>"running"\<close>. On the virtual-machine path the status is the state name
  the compute provider reports; on the externally-registered path it is \<^verbatim>\<open>"running"\<close>
  exactly when the reported ping status equals \<^verbatim>\<open>"Online"\<close>, and \<^verbatim>\<open>"not-running"\<close>
  otherwise.
\<close>

theorem running_iff_status_running:
  assumes "upstream w (tr @ [DescribeContainerInstances cl arn]) = Inr resp"
    and "subscripts resp [K (u ''containerInstances''), I 0] = Inr ci"
    and "getitem_str ci (u ''ec2InstanceId'') = Inr (PStr nid)"
    and "getitem_str ci (u ''agentConnected'') = Inr ac"
    and "upstream w (tr @ [DescribeContainerInstances cl arn,
                           if re_match (instance_id_pattern w) nid
                           then DescribeInstances nid else DescribeInstanceInformation nid]) = Inr r"
    and "subscripts r (if re_match (instance_id_pattern w) nid
                       then [K (u ''Reservations''), I 0, K (u ''Instances''), I 0, K (u ''State''), K (u ''Name'')]
                       else [K (u ''InstanceInformationList''), I 0, K (u ''PingStatus'')]) = Inr reported"
  shows "(\<exists>node tr'. ECSNode_init w arn cl tr = (Inr node, tr')
            \<and> instance_status node =
                (if re_match (instance_id_pattern w) nid then reported
                 else if reported = PStr (u ''Online'') then PStr (u ''running'')
                 else PStr (u ''not-running''))
            \<and> is_ec2_running node =
                (if re_match (instance_id_pattern w) nid then reported = PStr (u ''running'')
                 else reported = PStr (u ''Online'')))
         \<and> (\<forall>node. is_ec2_running node = (instance_status node = PStr (u ''running'')))"
proof -
  have "\<forall>node. is_ec2_running node = (instance_status node = PStr (u ''running''))"
    by (simp add: is_ec2_running_def)
  then show ?thesis
    using ECSNode_init_resolved [OF assms] by simp
qed

lemma example_state_queries:
  "subscripts (instances_response s)
     [K (u ''Reservations''), I 0, K (u ''Instances''), I 0, K (u ''State''), K (u ''Name'')] = Inr (PStr s)"
  "subscripts (instance_information_response p)
     [K (u ''InstanceInformationList''), I 0, K (u ''PingStatus'')] = Inr (PStr p)"
  by (simp_all add: instances_response_def instance_information_response_def
        getitem_str_def getitem_int_def)

lemma healthy_simps:
  "container_instances healthy =
     Inr (container_instances_response (PStr (u ''i-0123abcd'')) (PBool False))"
  "instances healthy = Inr (instances_response (u ''running''))"
  "instance_information healthy = Inr (instance_information_response (u ''Online''))"
  "clusters healthy = Inr (clusters_response [tag (u ''team'') (u ''core''), tag (u ''monitor'') (u ''yes'')])"
  "published healthy = Inr (PDict [((u ''MessageId''), PStr (u ''5e1c''))])"
  by (simp_all add: healthy_def)

theorem running_iff_status_running_witness:
  "(\<exists>node tr'. ECSNode_init (example_world env_tagged healthy) (PStr (u ''0f9c'')) (PStr demo_cluster) []
                 = (Inr node, tr')
        \<and> instance_status node = PStr (u ''running'') \<and> is_ec2_running node)
   \<and> (\<exists>node tr'. ECSNode_init
          (example_world env_tagged (healthy\<lparr>instances := Inr (instances_response (u ''stopped''))\<rparr>))
          (PStr (u ''0f9c'')) (PStr demo_cluster) [] = (Inr node, tr')
        \<and> instance_status node = PStr (u ''stopped'') \<and> \<not> is_ec2_running node)
   \<and> (\<exists>node tr'. ECSNode_init
          (example_world env_tagged (healthy\<lparr>container_instances :=
             Inr (container_instances_response (PStr (u ''mi-0123456789abcdef0'')) (PBool False)),
             instance_information := Inr (instance_information_response (u ''ConnectionLost''))\<rparr>))
          (PStr (u ''0f9c'')) (PStr demo_cluster) [] = (Inr node, tr')
        \<and> instance_status node = PStr (u ''not-running'') \<and> \<not> is_ec2_running node)"
proof -
  let ?w1 = "example_world env_tagged healthy"
  let ?w2 = "example_world env_tagged (healthy\<lparr>instances := Inr (instances_response (u ''stopped''))\<rparr>)"
  let ?w3 = "example_world env_tagged (healthy\<lparr>container_instances :=
             Inr (container_instances_response (PStr (u ''mi-0123456789abcdef0'')) (PBool False)),
             instance_information := Inr (instance_information_response (u ''ConnectionLost''))\<rparr>)"
  let ?dci = "DescribeContainerInstances (PStr demo_cluster) (PStr (u ''0f9c''))"
  have a1: "upstream ?w1 ([] @ [?dci])
              = Inr (container_instances_response (PStr (u ''i-0123abcd'')) (PBool False))"
    and a2: "upstream ?w2 ([] @ [?dci])
              = Inr (container_instances_response (PStr (u ''i-0123abcd'')) (PBool False))"
    and a3: "upstream ?w3 ([] @ [?dci])
              = Inr (container_instances_response (PStr (u ''mi-0123456789abcdef0'')) (PBool False))"
    by (simp_all only: example_world_simps answer_simps) (simp_all add: healthy_def)
  have b1: "upstream ?w1 ([] @ [?dci, if re_match (instance_id_pattern ?w1) (u ''i-0123abcd'')
                 then DescribeInstances (u ''i-0123abcd'')
                 else DescribeInstanceInformation (u ''i-0123abcd'')])
              = Inr (instances_response (u ''running''))"
    and b2: "upstream ?w2 ([] @ [?dci, if re_match (instance_id_pattern ?w2) (u ''i-0123abcd'')
                 then DescribeInstances (u ''i-0123abcd'')
                 else DescribeInstanceInformation (u ''i-0123abcd'')])
              = Inr (instances_response (u ''stopped''))"
    and b3: "upstream ?w3 ([] @ [?dci, if re_match (instance_id_pattern ?w3) (u ''mi-0123456789abcdef0'')
                 then DescribeInstances (u ''mi-0123456789abcdef0'')
                 else DescribeInstanceInformation (u ''mi-0123456789abcdef0'')])
              = Inr (instance_information_response (u ''ConnectionLost''))"
    by (simp_all add: pattern_examples example_world_simps answer_def healthy_def)
  have c1: "subscripts (instances_response (u ''running''))
              (if re_match (instance_id_pattern ?w1) (u ''i-0123abcd'')
               then [K (u ''Reservations''), I 0, K (u ''Instances''), I 0, K (u ''State''), K (u ''Name'')]
               else [K (u ''InstanceInformationList''), I 0, K (u ''PingStatus'')]) = Inr (PStr (u ''running''))"
    and c2: "subscripts (instances_response (u ''stopped''))
              (if re_match (instance_id_pattern ?w2) (u ''i-0123abcd'')
               then [K (u ''Reservations''), I 0, K (u ''Instances''), I 0, K (u ''State''), K (u ''Name'')]
               else [K (u ''InstanceInformationList''), I 0, K (u ''PingStatus'')]) = Inr (PStr (u ''stopped''))"
    and c3: "subscripts (instance_information_response (u ''ConnectionLost''))
              (if re_match (instance_id_pattern ?w3) (u ''mi-0123456789abcdef0'')
               then [K (u ''Reservations''), I 0, K (u ''Instances''), I 0, K (u ''State''), K (u ''Name'')]
               else [K (u ''InstanceInformationList''), I 0, K (u ''PingStatus'')])
               = Inr (PStr (u ''ConnectionLost''))"
    by (simp_all only: pattern_examples if_True if_False example_state_queries)
  show ?thesis
    using running_iff_status_running
            [OF a1 example_container_instance example_container_instance_fields b1 c1]
          running_iff_status_running
            [OF a2 example_container_instance example_container_instance_fields b2 c2]
          running_iff_status_running
            [OF a3 example_container_instance example_container_instance_fields b3 c3]
    by (simp only: pattern_examples if_True if_False pyval.inject u_eq_iff list.inject char.inject
          simp_thms) blast
qed

subsection \<open>The cluster-tag check\<close>

lemma tag_result_well_formed:
  assumes "\<forall>e\<in>set es. \<exists>a b. getitem_str e (u ''key'') = Inr a \<and> getitem_str e (u ''value'') = Inr b"
  shows "tag_result k v es =
           Inr (filter (\<lambda>e. getitem_str e (u ''key'') = Inr (PStr k)
                            \<and> getitem_str e (u ''value'') = Inr (PStr v)) es)"
  using assms
proof (induction es)
  case Nil
  show ?case by simp
next
  case (Cons e es)
  then obtain a b where ab: "getitem_str e (u ''key'') = Inr a" "getitem_str e (u ''value'') = Inr b"
    by auto
  have "tag_result k v es =
           Inr (filter (\<lambda>e. getitem_str e (u ''key'') = Inr (PStr k)
                            \<and> getitem_str e (u ''value'') = Inr (PStr v)) es)"
    using Cons by simp
  then show ?case using ab by simp
qed

lemma does_cluster_have_tags_unset:
  "tk = None \<or> tv = None \<Longrightarrow>
     does_cluster_have_tags w self tk tv tr = (Inr False, tr)"
  by (auto simp: does_cluster_have_tags_def split: option.splits)

lemma does_cluster_have_tags_answered:
  assumes "upstream w (tr @ [DescribeClusters (cluster_arn self)]) = Inr resp"
    and "subscripts resp [K (u ''clusters''), I 0, K (u ''tags'')] = Inr (PList entries)"
    and "\<forall>e\<in>set entries. \<exists>a b. getitem_str e (u ''key'') = Inr a \<and> getitem_str e (u ''value'') = Inr b"
  shows "does_cluster_have_tags w self (Some k) (Some v) tr =
           (Inr (\<exists>e\<in>set entries. getitem_str e (u ''key'') = Inr (PStr k)
                                 \<and> getitem_str e (u ''value'') = Inr (PStr v)),
            tr @ [DescribeClusters (cluster_arn self)])"
proof -
  have "does_cluster_have_tags_try w self k v tr =
          (Inr (filter (\<lambda>e. getitem_str e (u ''key'') = Inr (PStr k)
                            \<and> getitem_str e (u ''value'') = Inr (PStr v)) entries \<noteq> []),
           tr @ [DescribeClusters (cluster_arn self)])"
    unfolding does_cluster_have_tags_try_def call_def
    by (simp only: assms(1,2) tag_result_well_formed [OF assms(3)] py_iter_def
          prod.case sum.case pyval.case if_True if_False simp_thms if_bool_eq_conj)
  then show ?thesis
    by (simp add: does_cluster_have_tags_def filter_empty_conv)
qed

text \<open>
  C4. With the tag key or the tag value unset, \<open>does_cluster_have_tags\<close> returns false,
  issues no query (the trace is unchanged) and raises nothing. With both set, and the tag
  query answered with a list of entries that each have a key and a value, it returns true
  iff some entry has exactly that key and exactly that value; in particular an empty list
  of tags gives false.
\<close>

theorem cluster_tag_check:
  "(tk = None \<or> tv = None \<longrightarrow>
      does_cluster_have_tags w self tk tv tr = (Inr False, tr))
   \<and> (\<forall>k v resp entries.
        upstream w (tr @ [DescribeClusters (cluster_arn self)]) = Inr resp
        \<and> subscripts resp [K (u ''clusters''), I 0, K (u ''tags'')] = Inr (PList entries)
        \<and> (\<forall>e\<in>set entries. \<exists>a b. getitem_str e (u ''key'') = Inr a
                                    \<and> getitem_str e (u ''value'') = Inr b)
        \<longrightarrow> does_cluster_have_tags w self (Some k) (Some v) tr =
              (Inr (\<exists>e\<in>set entries. getitem_str e (u ''key'') = Inr (PStr k)
                                    \<and> getitem_str e (u ''value'') = Inr (PStr v)),
               tr @ [DescribeClusters (cluster_arn self)])
            \<and> (entries = [] \<longrightarrow>
                 does_cluster_have_tags w self (Some k) (Some v) tr =
                   (Inr False, tr @ [DescribeClusters (cluster_arn self)])))"
proof (intro conjI allI impI)
  assume "tk = None \<or> tv = None"
  then show "does_cluster_have_tags w self tk tv tr = (Inr False, tr)"
    by (rule does_cluster_have_tags_unset)
next
  fix k v resp entries
  assume h: "upstream w (tr @ [DescribeClusters (cluster_arn self)]) = Inr resp
        \<and> subscripts resp [K (u ''clusters''), I 0, K (u ''tags'')] = Inr (PList entries)
        \<and> (\<forall>e\<in>set entries. \<exists>a b. getitem_str e (u ''key'') = Inr a
                                    \<and> getitem_str e (u ''value'') = Inr b)"
  then show r: "does_cluster_have_tags w self (Some k) (Some v) tr =
              (Inr (\<exists>e\<in>set entries. getitem_str e (u ''key'') = Inr (PStr k)
                                    \<and> getitem_str e (u ''value'') = Inr (PStr v)),
               tr @ [DescribeClusters (cluster_arn self)])"
    using does_cluster_have_tags_answered by blast
  assume "entries = []"
  then show "does_cluster_have_tags w self (Some k) (Some v) tr =
                   (Inr False, tr @ [DescribeClusters (cluster_arn self)])"
    using r by simp
qed

lemma example_tags:
  "subscripts (clusters_response ts) [K (u ''clusters''), I 0, K (u ''tags'')] = Inr (PList ts)"
  by (simp add: clusters_response_def getitem_str_def getitem_int_def)

lemma tag_fields:
  "getitem_str (tag k v) (u ''key'') = Inr (PStr k)"
  "getitem_str (tag k v) (u ''value'') = Inr (PStr v)"
  by (simp_all add: tag_def getitem_str_def)

theorem cluster_tag_check_witness:
  "does_cluster_have_tags (example_world env_tagged healthy) demo_node None (Some (u ''yes'')) []
     = (Inr False, [])
   \<and> does_cluster_have_tags (example_world env_tagged healthy) demo_node
        (Some (u ''monitor'')) (Some (u ''yes'')) []
     = (Inr True, [DescribeClusters (PStr demo_cluster)])
   \<and> does_cluster_have_tags (example_world env_tagged healthy) demo_node
        (Some (u ''Monitor'')) (Some (u ''yes'')) []
     = (Inr False, [DescribeClusters (PStr demo_cluster)])
   \<and> does_cluster_have_tags
        (example_world env_tagged (healthy\<lparr>clusters := Inr (clusters_response [])\<rparr>)) demo_node
        (Some (u ''monitor'')) (Some (u ''yes'')) []
     = (Inr False, [DescribeClusters (PStr demo_cluster)])"
proof -
  let ?w = "example_world env_tagged healthy"
  let ?we = "example_world env_tagged (healthy\<lparr>clusters := Inr (clusters_response [])\<rparr>)"
  let ?tags = "[tag (u ''team'') (u ''core''), tag (u ''monitor'') (u ''yes'')]"
  have ca: "cluster_arn demo_node = PStr demo_cluster" by (simp add: demo_node_def)
  have u: "upstream ?w ([] @ [DescribeClusters (cluster_arn demo_node)]) = Inr (clusters_response ?tags)"
    by (simp only: example_world_simps answer_simps healthy_simps)
  have u0: "upstream ?we ([] @ [DescribeClusters (cluster_arn demo_node)]) = Inr (clusters_response [])"
    by (simp only: example_world_simps answer_simps) simp
  have wf: "\<forall>e\<in>set ?tags. \<exists>a b. getitem_str e (u ''key'') = Inr a \<and> getitem_str e (u ''value'') = Inr b"
    by (simp add: tag_fields)
  have wf0: "\<forall>e\<in>set ([]::pyval list). \<exists>a b. getitem_str e (u ''key'') = Inr a
               \<and> getitem_str e (u ''value'') = Inr b"
    by simp
  note t = cluster_tag_check [of None "Some (u ''yes'')" ?w demo_node "[]"]
  note t1 = cluster_tag_check [THEN conjunct2, rule_format, THEN conjunct1,
               of ?w "[]" demo_node "clusters_response ?tags" ?tags, OF conjI [OF u conjI [OF example_tags wf]]]
  note t0 = cluster_tag_check [THEN conjunct2, rule_format, THEN conjunct1,
               of ?we "[]" demo_node "clusters_response []" "[]", OF conjI [OF u0 conjI [OF example_tags wf0]]]
  have 1: "does_cluster_have_tags ?w demo_node None (Some (u ''yes'')) [] = (Inr False, [])"
    using t by simp
  have 2: "does_cluster_have_tags ?w demo_node (Some (u ''monitor'')) (Some (u ''yes'')) []
            = (Inr True, [DescribeClusters (PStr demo_cluster)])"
    using t1 [of "(u ''monitor'')" "(u ''yes'')"] by (simp add: tag_fields ca)
  have 3: "does_cluster_have_tags ?w demo_node (Some (u ''Monitor'')) (Some (u ''yes'')) []
            = (Inr False, [DescribeClusters (PStr demo_cluster)])"
    using t1 [of "(u ''Monitor'')" "(u ''yes'')"] by (simp add: tag_fields ca)
  have 4: "does_cluster_have_tags ?we demo_node (Some (u ''monitor'')) (Some (u ''yes'')) []
            = (Inr False, [DescribeClusters (PStr demo_cluster)])"
    using t0 [of "(u ''monitor'')" "(u ''yes'')"] by (simp add: ca)
  show ?thesis using 1 2 3 4 by blast
qed

subsection \<open>The eligibility decision\<close>

lemma lower_examples:
  "lower w (u ''false'') = u ''false''"
  "lower w (u ''Yes'') = u ''yes''"
  "lower w (u ''TRUE'') = u ''true''"
  by (simp_all add: lower_def ascii_lower_def u_def cp_def)

lemma read_config_examples:
  "read_config (example_world env_tagged a) =
     \<lparr>tag_key = Some (u ''monitor''), tag_value = Some (u ''yes''), check_all_clusters = (u ''false''),
      email_notification = PStr (u ''arn:aws:sns:eu-west-1:111122223333:alerts'')\<rparr>"
  "read_config (example_world env_all_clusters a) =
     \<lparr>tag_key = None, tag_value = None, check_all_clusters = (u ''Yes''),
      email_notification = PStr (u ''arn:aws:sns:eu-west-1:111122223333:alerts'')\<rparr>"
  by (simp_all add: read_config_def example_world_simps env_tagged_def env_all_clusters_def)

text \<open>
  C2. The condition that guards the alert is true if and only if (monitoring of all
  clusters is switched on, or the cluster-tag check returns true) and the node is running
  and its agent is not connected. So for a node that is not running, and for a node whose
  agent is connected, it is never true, whatever the configuration: it is false, unless
  the tag query that had to be made raised, in which case no decision is made at all.
\<close>

theorem eligible_iff_three_conditions:
  "(fst (eligible w cfg node tr) = Inr True \<longleftrightarrow>
      (lower w (check_all_clusters cfg) \<in> set [(u ''true''), (u ''yes'')]
       \<or> fst (does_cluster_have_tags w node (tag_key cfg) (tag_value cfg) tr) = Inr True)
      \<and> is_ec2_running node \<and> \<not> is_agent_connected node)
   \<and> (\<not> is_ec2_running node \<longrightarrow> fst (eligible w cfg node tr) \<noteq> Inr True)
   \<and> (is_agent_connected node \<longrightarrow> fst (eligible w cfg node tr) \<noteq> Inr True)
   \<and> ((\<not> is_ec2_running node \<or> is_agent_connected node)
        \<and> (lower w (check_all_clusters cfg) \<in> set [(u ''true''), (u ''yes'')]
             \<or> (\<exists>b. fst (does_cluster_have_tags w node (tag_key cfg) (tag_value cfg) tr) = Inr b))
       \<longrightarrow> fst (eligible w cfg node tr) = Inr False)"
proof (cases "lower w (check_all_clusters cfg) \<in> set [(u ''true''), (u ''yes'')]")
  case True
  then have "eligible w cfg node tr =
               (Inr (is_ec2_running node \<and> \<not> is_agent_connected node), tr)"
    by (simp add: eligible_def)
  then show ?thesis using True by auto
next
  case False
  obtain r tr' where d: "does_cluster_have_tags w node (tag_key cfg) (tag_value cfg) tr = (r, tr')"
    by (cases "does_cluster_have_tags w node (tag_key cfg) (tag_value cfg) tr")
  show ?thesis
  proof (cases r)
    case (Inl e)
    then have "eligible w cfg node tr = (Inl e, tr')"
      using False d by (simp add: eligible_def)
    then show ?thesis using False d Inl by simp
  next
    case (Inr b)
    then have "eligible w cfg node tr =
                 (Inr (b \<and> is_ec2_running node \<and> \<not> is_agent_connected node), tr')"
      using False d by (simp add: eligible_def)
    then show ?thesis using False d Inr by auto
  qed
qed

lemma example_nodes:
  "is_ec2_running demo_node" "\<not> is_agent_connected demo_node"
  "\<not> is_ec2_running stopped_node" "is_agent_connected reconnected_node"
  "cluster_arn demo_node = PStr demo_cluster"
  by (simp_all add: demo_node_def stopped_node_def reconnected_node_def
        is_ec2_running_def is_agent_connected_def truthy_def)

lemma example_tag_check:
  "does_cluster_have_tags (example_world env a) n None None tr = (Inr False, tr)"
  by (simp add: does_cluster_have_tags_def)

lemma example_tagged_check:
  "does_cluster_have_tags (example_world env_tagged healthy) demo_node
     (Some (u ''monitor'')) (Some (u ''yes'')) [] = (Inr True, [DescribeClusters (PStr demo_cluster)])"
  "does_cluster_have_tags (example_world env_tagged healthy) demo_node
     (Some (u ''monitor'')) (Some (u ''no'')) [] = (Inr False, [DescribeClusters (PStr demo_cluster)])"
proof -
  let ?w = "example_world env_tagged healthy"
  let ?tags = "[tag (u ''team'') (u ''core''), tag (u ''monitor'') (u ''yes'')]"
  have u: "upstream ?w ([] @ [DescribeClusters (cluster_arn demo_node)])
             = Inr (clusters_response ?tags)"
    by (simp only: example_world_simps answer_simps healthy_simps)
  have wf: "\<forall>e\<in>set ?tags. \<exists>a b. getitem_str e (u ''key'') = Inr a \<and> getitem_str e (u ''value'') = Inr b"
    by (simp add: tag_fields)
  note t = does_cluster_have_tags_answered [OF u example_tags wf]
  show "does_cluster_have_tags ?w demo_node (Some (u ''monitor'')) (Some (u ''yes'')) []
          = (Inr True, [DescribeClusters (PStr demo_cluster)])"
    using t [of "(u ''monitor'')" "(u ''yes'')"] by (simp add: tag_fields example_nodes)
  show "does_cluster_have_tags ?w demo_node (Some (u ''monitor'')) (Some (u ''no'')) []
          = (Inr False, [DescribeClusters (PStr demo_cluster)])"
    using t [of "(u ''monitor'')" "(u ''no'')"] by (simp add: tag_fields example_nodes)
qed

theorem eligible_iff_three_conditions_witness:
  "fst (eligible (example_world env_all_clusters healthy)
          (read_config (example_world env_all_clusters healthy)) demo_node []) = Inr True
   \<and> fst (eligible (example_world env_all_clusters healthy)
          (read_config (example_world env_all_clusters healthy)) stopped_node []) = Inr False
   \<and> fst (eligible (example_world env_all_clusters healthy)
          (read_config (example_world env_all_clusters healthy)) reconnected_node []) = Inr False
   \<and> fst (eligible (example_world env_tagged healthy)
          (read_config (example_world env_tagged healthy)) demo_node []) = Inr True
   \<and> fst (eligible (example_world env_tagged healthy)
          ((read_config (example_world env_tagged healthy))\<lparr>tag_value := Some (u ''no'')\<rparr>)
          demo_node []) \<noteq> Inr True"
proof -
  let ?w = "example_world env_all_clusters healthy"
  let ?v = "example_world env_tagged healthy"
  have m: "lower ?w (check_all_clusters (read_config ?w)) \<in> set [(u ''true''), (u ''yes'')]"
    by (simp add: read_config_examples lower_examples)
  have n: "lower ?v (check_all_clusters (read_config ?v)) \<notin> set [(u ''true''), (u ''yes'')]"
    "lower ?v (check_all_clusters ((read_config ?v)\<lparr>tag_value := Some (u ''no'')\<rparr>))
       \<notin> set [(u ''true''), (u ''yes'')]"
    by (simp_all add: read_config_examples lower_examples)
  have t: "fst (does_cluster_have_tags ?v demo_node (tag_key (read_config ?v))
                  (tag_value (read_config ?v)) []) = Inr True"
    "fst (does_cluster_have_tags ?v demo_node
            (tag_key ((read_config ?v)\<lparr>tag_value := Some (u ''no'')\<rparr>))
            (tag_value ((read_config ?v)\<lparr>tag_value := Some (u ''no'')\<rparr>)) []) \<noteq> Inr True"
    by (simp_all add: read_config_examples example_tagged_check)
  show ?thesis
    using m n t example_nodes
      eligible_iff_three_conditions [of ?w "read_config ?w" demo_node "[]"]
      eligible_iff_three_conditions [of ?w "read_config ?w" stopped_node "[]"]
      eligible_iff_three_conditions [of ?w "read_config ?w" reconnected_node "[]"]
      eligible_iff_three_conditions [of ?v "read_config ?v" demo_node "[]"]
      eligible_iff_three_conditions
        [of ?v "(read_config ?v)\<lparr>tag_value := Some (u ''no'')\<rparr>" demo_node "[]"]
    by blast
qed

subsection \<open>The loop and the handler\<close>

lemma handler_loop_append:
  "handler_loop w cfg (xs @ ys) seen tr =
     (case handler_loop w cfg xs seen tr of
        (Next, seen', tr') \<Rightarrow> handler_loop w cfg ys seen' tr'
      | (Return, seen', tr') \<Rightarrow> (Return, seen', tr')
      | (Raise e, seen', tr') \<Rightarrow> (Raise e, seen', tr'))"
proof (induction xs arbitrary: seen tr)
  case Nil
  show ?case by simp
next
  case (Cons x xs)
  obtain f s t where r: "handler_record w cfg x seen tr = (f, s, t)"
    by (cases "handler_record w cfg x seen tr")
  show ?case
  proof (cases f)
    case Next
    then show ?thesis using r Cons.IH [of s t] by simp
  next
    case Return
    then show ?thesis using r by simp
  next
    case (Raise e)
    then show ?thesis using r by simp
  qed
qed

lemma handler_try_sqs_event:
  "handler_try w (sqs_event records) = handler_loop w (read_config w) records [] []"
  by (simp add: handler_try_def sqs_event_def getitem_str_def py_iter_def)

lemma handler_loop_stops:
  assumes "handler_loop w cfg earlier seen tr = (Next, seen0, tr0)"
    and "handler_record w cfg record seen0 tr0 = (f, seen1, tr1)"
    and "f \<noteq> Next"
  shows "handler_loop w cfg (earlier @ record # later) seen tr = (f, seen1, tr1)"
  using assms by (cases f) (simp_all add: handler_loop_append)

lemma handler_stops:
  assumes "handler_loop w (read_config w) earlier [] [] = (Next, seen0, tr0)"
    and "handler_record w (read_config w) record seen0 tr0 = (f, seen1, tr1)"
    and "f \<noteq> Next"
  shows "handler w (sqs_event (earlier @ record # later)) =
           (case f of Raise e \<Rightarrow> Inl (Exception ((u ''Error: execution error - '') @ str_exn w e))
                    | _ \<Rightarrow> Inr (), tr1)"
  using handler_loop_stops [OF assms, of later] assms(3)
  by (cases f) (simp_all add: handler_def handler_try_sqs_event)

lemma handler_record_done:
  "examine w cfg record tr = (Done f, tr') \<Longrightarrow>
     handler_record w cfg record seen tr = (f, seen, tr')"
  by (simp add: handler_record_def)

lemma handler_record_eligible:
  "examine w cfg record tr = (Eligible node, tr') \<Longrightarrow>
     handler_record w cfg record seen tr = alert w cfg node seen tr'"
  by (simp add: handler_record_def)

subsection \<open>The checks on one record\<close>

lemma getitem_str_not_None: "getitem_str payload k = Inr v \<Longrightarrow> payload \<noteq> PNone"
  by (auto simp: getitem_str_def)

lemma getitem_str_py_get: "getitem_str v k = Inr x \<Longrightarrow> py_get v k = Inr x"
  by (auto simp: getitem_str_def py_get_def split: pyval.splits option.splits)

lemma examine_stops: "resolve w record tr = (Inl f, tr') \<Longrightarrow> examine w cfg record tr = (Done f, tr')"
  by (simp add: examine_def)

lemma resolve_undecodable:
  assumes "py_get record (u ''body'') = Inr body" and "loads w body = Inl e"
  shows "resolve w record tr = (Inl (Raise e), tr)"
  using assms by (simp add: resolve_def)

lemma resolve_empty:
  assumes "py_get record (u ''body'') = Inr body" and "loads w body = Inr PNone"
  shows "resolve w record tr =
           (Inl (Raise (ValueError (u ''Message empty! No details to process.''))), tr)"
  using assms by (simp add: resolve_def)

lemma resolve_unsupported:
  assumes "py_get record (u ''body'') = Inr body" and "loads w body = Inr payload"
    and "getitem_str payload (u ''source'') = Inr src"
    and "src \<noteq> PStr (u ''aws.ecs'')
         \<or> (\<exists>dt. getitem_str payload (u ''detail-type'') = Inr dt
                  \<and> dt \<noteq> PStr (u ''ECS Container Instance State Change''))"
  shows "resolve w record tr =
           (Inl (Raise (ValueError
              (u ''Only 'aws.ecs' events and Instance state changes are supported.''))), tr)"
proof -
  have "payload \<noteq> PNone" using assms(3) by (rule getitem_str_not_None)
  moreover have "unsupported_event payload = Inr True"
    using assms(3,4) by (auto simp: unsupported_event_def)
  ultimately show ?thesis using assms(1,2) by (simp add: resolve_def)
qed

lemma resolve_early_exit:
  assumes "py_get record (u ''body'') = Inr body" and "loads w body = Inr payload"
    and "getitem_str payload (u ''source'') = Inr (PStr (u ''aws.ecs''))"
    and "getitem_str payload (u ''detail-type'') = Inr (PStr (u ''ECS Container Instance State Change''))"
    and "subscripts payload [K (u ''detail''), K (u ''agentConnected'')] = Inr ac"
    and "ac \<noteq> PBool False
         \<or> (\<exists>st. subscripts payload [K (u ''detail''), K (u ''status'')] = Inr st \<and> st \<noteq> PStr (u ''ACTIVE''))"
  shows "resolve w record tr = (Inl Return, tr)"
proof -
  have "payload \<noteq> PNone" using assms(3) by (rule getitem_str_not_None)
  moreover have "unsupported_event payload = Inr False"
    using assms(3,4) by (simp add: unsupported_event_def)
  moreover have "reconnected_or_not_active payload = Inr True"
    using assms(5,6) unfolding reconnected_or_not_active_def by auto
  ultimately show ?thesis using assms(1,2) by (simp add: resolve_def)
qed

lemma resolve_disconnected:
  assumes "py_get record (u ''body'') = Inr body" and "loads w body = Inr payload"
    and "getitem_str payload (u ''source'') = Inr (PStr (u ''aws.ecs''))"
    and "getitem_str payload (u ''detail-type'') = Inr (PStr (u ''ECS Container Instance State Change''))"
    and "getitem_str payload (u ''detail'') = Inr detail"
    and "getitem_str detail (u ''agentConnected'') = Inr (PBool False)"
    and "getitem_str detail (u ''status'') = Inr (PStr (u ''ACTIVE''))"
    and "py_get detail (u ''containerInstanceArn'') = Inr arn"
    and "py_get detail (u ''clusterArn'') = Inr cl"
  shows "resolve w record tr =
           (case ECSNode_init w arn cl tr of
              (Inl e, tr1) \<Rightarrow> (Inl (Raise e), tr1)
            | (Inr ecs_instance, tr1) \<Rightarrow> (Inr ecs_instance, tr1))"
proof -
  have "payload \<noteq> PNone" using assms(3) by (rule getitem_str_not_None)
  moreover have "unsupported_event payload = Inr False"
    using assms(3,4) by (simp add: unsupported_event_def)
  moreover have "reconnected_or_not_active payload = Inr False"
    using assms(5,6,7) by (simp add: reconnected_or_not_active_def)
  moreover have "py_get payload (u ''detail'') = Inr detail"
    using assms(5) by (rule getitem_str_py_get)
  ultimately show ?thesis using assms(1,2,8,9) by (simp add: resolve_def)
qed

subsection \<open>What each step adds to the trace\<close>

lemma subjects_append: "subjects (xs @ ys) = subjects xs @ subjects ys"
  by (induction xs rule: subjects.induct) simp_all


lemma fetch_ec2_details_try_adds:
  "\<exists>ext. snd (fetch_ec2_details_try w arn cl tr) = tr @ ext
         \<and> subjects ext = [] \<and> tag_queries ext = []"
proof -
  obtain r1 where r1: "upstream w (tr @ [DescribeContainerInstances cl arn]) = r1" by simp
  have a: "subjects [DescribeContainerInstances cl arn] = []"
    "tag_queries [DescribeContainerInstances cl arn] = []"
    "\<And>n. subjects [DescribeContainerInstances cl arn, DescribeInstances n] = []"
    "\<And>n. tag_queries [DescribeContainerInstances cl arn, DescribeInstances n] = []"
    "\<And>n. subjects [DescribeContainerInstances cl arn, DescribeInstanceInformation n] = []"
    "\<And>n. tag_queries [DescribeContainerInstances cl arn, DescribeInstanceInformation n] = []"
    by simp_all
  have "snd (fetch_ec2_details_try w arn cl tr) = tr @ [DescribeContainerInstances cl arn]
        \<or> (\<exists>n. snd (fetch_ec2_details_try w arn cl tr)
                  = tr @ [DescribeContainerInstances cl arn, DescribeInstances n])
        \<or> (\<exists>n. snd (fetch_ec2_details_try w arn cl tr)
                  = tr @ [DescribeContainerInstances cl arn, DescribeInstanceInformation n])"
    unfolding fetch_ec2_details_try_def call_def
    by (simp split: sum.splits pyval.splits prod.splits)
  then show ?thesis using a by metis
qed

lemma ECSNode_init_adds:
  "\<exists>ext. snd (ECSNode_init w arn cl tr) = tr @ ext \<and> subjects ext = [] \<and> tag_queries ext = []"
proof -
  have "snd (ECSNode_init w arn cl tr) = snd (fetch_ec2_details_try w arn cl tr)"
    unfolding ECSNode_init_def
    by (simp add: fetch_ec2_details_trace [symmetric] split: prod.splits sum.splits)
  then show ?thesis using fetch_ec2_details_try_adds [of w arn cl tr] by simp
qed

lemma resolve_trace:
  "resolve w record tr = (r, tr') \<Longrightarrow>
     tr' = tr \<or> (\<exists>arn cl x. ECSNode_init w arn cl tr = (x, tr'))"
  by (auto simp: resolve_def split: sum.splits prod.splits bool.splits if_splits)

lemma resolve_adds:
  "\<exists>ext. snd (resolve w record tr) = tr @ ext \<and> subjects ext = [] \<and> tag_queries ext = []"
proof -
  obtain r tr' where r: "resolve w record tr = (r, tr')" by (cases "resolve w record tr")
  from resolve_trace [OF r] show ?thesis
  proof
    assume "tr' = tr"
    then show ?thesis using r by simp
  next
    assume "\<exists>arn cl x. ECSNode_init w arn cl tr = (x, tr')"
    then obtain arn cl x where "ECSNode_init w arn cl tr = (x, tr')" by blast
    then have "snd (ECSNode_init w arn cl tr) = snd (resolve w record tr)" using r by simp
    then show ?thesis using ECSNode_init_adds [of w arn cl tr] by simp
  qed
qed

lemma does_cluster_have_tags_adds:
  "\<exists>ext. snd (does_cluster_have_tags w self tk tv tr) = tr @ ext \<and> subjects ext = []"
proof -
  have "snd (does_cluster_have_tags w self tk tv tr) = tr
        \<or> snd (does_cluster_have_tags w self tk tv tr) = tr @ [DescribeClusters (cluster_arn self)]"
    unfolding does_cluster_have_tags_def does_cluster_have_tags_try_def call_def
    by (simp split: sum.splits prod.splits option.splits exn.splits)
  then show ?thesis by auto
qed

lemma eligible_adds:
  "\<exists>ext. snd (eligible w cfg node tr) = tr @ ext \<and> subjects ext = []"
proof -
  have "snd (eligible w cfg node tr) = tr
        \<or> snd (eligible w cfg node tr)
             = snd (does_cluster_have_tags w node (tag_key cfg) (tag_value cfg) tr)"
    unfolding eligible_def by (simp split: sum.splits prod.splits)
  then show ?thesis using does_cluster_have_tags_adds [of w node "tag_key cfg" "tag_value cfg" tr]
    by auto
qed

lemma eligible_all_clusters:
  "lower w (check_all_clusters cfg) \<in> set [(u ''true''), (u ''yes'')] \<Longrightarrow>
     eligible w cfg node tr = (Inr (is_ec2_running node \<and> \<not> is_agent_connected node), tr)"
  by (simp add: eligible_def)

lemma examine_adds:
  "\<exists>ext. snd (examine w cfg record tr) = tr @ ext \<and> subjects ext = []"
proof -
  obtain r tr1 where r: "resolve w record tr = (r, tr1)" by (cases "resolve w record tr")
  obtain e1 where e1: "tr1 = tr @ e1" "subjects e1 = []"
    using resolve_adds [of w "record" tr] r by auto
  show ?thesis
  proof (cases r)
    case (Inl f)
    then show ?thesis using r e1 by (simp add: examine_def)
  next
    case (Inr node)
    obtain e2 where e2: "snd (eligible w cfg node tr1) = tr1 @ e2" "subjects e2 = []"
      using eligible_adds by blast
    have "snd (examine w cfg record tr) = snd (eligible w cfg node tr1)"
      using r Inr by (simp add: examine_def split: prod.splits sum.splits bool.splits)
    then have "snd (examine w cfg record tr) = tr @ (e1 @ e2)" using e1 e2 by simp
    moreover have "subjects (e1 @ e2) = []" using e1 e2 by (simp add: subjects_append)
    ultimately show ?thesis by blast
  qed
qed


subsection \<open>The alert branch and the list of processed nodes\<close>

lemma alert_seen:
  "ec2_id node \<in> set seen \<Longrightarrow> alert w cfg node seen tr = (Next, seen, tr)"
  by (simp add: alert_def get_ec2_item_def)

lemma alert_new:
  assumes "ec2_id node \<notin> set seen"
  shows "\<exists>f ext. alert w cfg node seen tr =
           (f, seen @ [ec2_id node],
            tr @ Publish (email_notification cfg)
                   ((u ''[ISSUE] ECS Container Instance '') @ ec2_id node @ (u '' from Cluster '')
                    @ py_str w (cluster_arn node) @ (u '' has the ECS Agent disconnected.''))
                   (subject_for (ec2_id node)) # ext)
         \<and> subjects ext = [] \<and> tag_queries ext = []"
  using assms
  unfolding alert_def send_email_def call_def get_ec2_item_def subject_for_def Let_def
  by (simp split: sum.splits prod.splits exn.splits)

lemma alert_sent:
  assumes "ec2_id node \<notin> set seen"
    and "upstream w (tr @ [Publish (email_notification cfg)
                   ((u ''[ISSUE] ECS Container Instance '') @ ec2_id node @ (u '' from Cluster '')
                    @ py_str w (cluster_arn node) @ (u '' has the ECS Agent disconnected.''))
                   (subject_for (ec2_id node))]) = Inr r"
  shows "alert w cfg node seen tr =
           (if (cp CHR ''/'') \<in> set (py_str w (cluster_arn node))
            then (Next, seen @ [ec2_id node],
                  tr @ [Publish (email_notification cfg)
                          ((u ''[ISSUE] ECS Container Instance '') @ ec2_id node @ (u '' from Cluster '')
                           @ py_str w (cluster_arn node) @ (u '' has the ECS Agent disconnected.''))
                          (subject_for (ec2_id node)),
                        LogWarning (rev (takeWhile (\<lambda>c. c \<noteq> (cp CHR ''/''))
                                           (rev (py_str w (cluster_arn node))))
                                    @ (u '' '') @ ec2_id node)])
            else (Raise IndexError, seen @ [ec2_id node],
                  tr @ [Publish (email_notification cfg)
                          ((u ''[ISSUE] ECS Container Instance '') @ ec2_id node @ (u '' from Cluster '')
                           @ py_str w (cluster_arn node) @ (u '' has the ECS Agent disconnected.''))
                          (subject_for (ec2_id node))]))"
  using assms
  unfolding alert_def send_email_def call_def get_ec2_item_def subject_for_def Let_def rsplit1_def
  by simp

lemma handler_record_grows:
  assumes "handler_record w cfg record seen tr = (f, seen', tr')"
  shows "\<exists>new. seen' = seen @ new \<and> subjects tr' = subjects tr @ map subject_for new
               \<and> distinct new \<and> set new \<inter> set seen = {}"
proof -
  obtain v tr1 where v: "examine w cfg record tr = (v, tr1)" by (cases "examine w cfg record tr")
  have s1: "subjects tr1 = subjects tr"
    using examine_adds [of w cfg "record" tr] v by (auto simp: subjects_append)
  show ?thesis
  proof (cases v)
    case (Done g)
    then have "seen' = seen" "tr' = tr1" using v assms by (simp_all add: handler_record_def)
    then show ?thesis using s1 by simp
  next
    case (Eligible node)
    then have a: "alert w cfg node seen tr1 = (f, seen', tr')"
      using v assms by (simp add: handler_record_def)
    show ?thesis
    proof (cases "ec2_id node \<in> set seen")
      case True
      then have "seen' = seen" "tr' = tr1" using a alert_seen [of node seen w cfg tr1] by simp_all
      then show ?thesis using s1 by simp
    next
      case False
      from alert_new [OF False, of w cfg tr1] a
      obtain ext where "seen' = seen @ [ec2_id node]"
        "subjects tr' = subjects tr1 @ [subject_for (ec2_id node)]"
        by (auto simp: subjects_append)
      then show ?thesis using s1 False by simp
    qed
  qed
qed

lemma handler_loop_grows:
  "handler_loop w cfg records seen tr = (f, seen', tr') \<Longrightarrow>
     \<exists>new. seen' = seen @ new \<and> subjects tr' = subjects tr @ map subject_for new
           \<and> distinct new \<and> set new \<inter> set seen = {}"
proof (induction records arbitrary: seen tr)
  case Nil
  then show ?case by simp
next
  case (Cons r rs)
  obtain g s1 t1 where r: "handler_record w cfg r seen tr = (g, s1, t1)"
    by (cases "handler_record w cfg r seen tr")
  obtain n1 where n1: "s1 = seen @ n1" "subjects t1 = subjects tr @ map subject_for n1"
    "distinct n1" "set n1 \<inter> set seen = {}"
    using handler_record_grows [OF r] by blast
  show ?case
  proof (cases g)
    case Next
    then have "handler_loop w cfg rs s1 t1 = (f, seen', tr')" using r Cons.prems by simp
    from Cons.IH [OF this]
    obtain n2 where n2: "seen' = s1 @ n2" "subjects tr' = subjects t1 @ map subject_for n2"
      "distinct n2" "set n2 \<inter> set s1 = {}" by blast
    have "seen' = seen @ (n1 @ n2)" using n1 n2 by simp
    moreover have "subjects tr' = subjects tr @ map subject_for (n1 @ n2)" using n1 n2 by simp
    moreover have "distinct (n1 @ n2)" using n1 n2 by auto
    moreover have "set (n1 @ n2) \<inter> set seen = {}" using n1 n2 by auto
    ultimately show ?thesis by blast
  next
    case Return
    then have "seen' = s1" "tr' = t1" using r Cons.prems by simp_all
    then show ?thesis using n1 by blast
  next
    case (Raise e)
    then have "seen' = s1" "tr' = t1" using r Cons.prems by simp_all
    then show ?thesis using n1 by blast
  qed
qed

lemma subject_for_inj: "inj_on subject_for A"
  by (simp add: inj_on_def subject_for_def)

lemma handler_trace:
  "snd (handler w event) = snd (snd (handler_try w event))"
  by (simp add: handler_def split: prod.splits flow.splits)

lemma handler_subjects_distinct: "distinct (subjects (snd (handler w event)))"
proof -
  have "\<exists>seen'. subjects (snd (snd (handler_try w event))) = map subject_for seen'
                \<and> distinct seen'"
  proof (cases "\<exists>rs. handler_try w event = handler_loop w (read_config w) rs [] []")
    case True
    then obtain rs where rs: "handler_try w event = handler_loop w (read_config w) rs [] []"
      by blast
    obtain f s t where l: "handler_loop w (read_config w) rs [] [] = (f, s, t)"
      by (cases "handler_loop w (read_config w) rs [] []")
    from handler_loop_grows [OF l] have "subjects t = map subject_for s \<and> distinct s" by auto
    then show ?thesis using rs l by auto
  next
    case False
    then have "snd (snd (handler_try w event)) = []"
      by (auto simp: handler_try_def split: sum.splits)
    then show ?thesis by simp
  qed
  then show ?thesis
    unfolding handler_trace by (auto simp: distinct_map subject_for_inj)
qed

subsection \<open>The early exit\<close>

lemma early_exit_record:
  assumes "py_get record (u ''body'') = Inr body" and "loads w body = Inr payload"
    and "getitem_str payload (u ''source'') = Inr (PStr (u ''aws.ecs''))"
    and "getitem_str payload (u ''detail-type'') = Inr (PStr (u ''ECS Container Instance State Change''))"
    and "subscripts payload [K (u ''detail''), K (u ''agentConnected'')] = Inr ac"
    and "ac \<noteq> PBool False
         \<or> (\<exists>st. subscripts payload [K (u ''detail''), K (u ''status'')] = Inr st \<and> st \<noteq> PStr (u ''ACTIVE''))"
  shows "handler_record w cfg record seen tr = (Return, seen, tr)"
  by (rule handler_record_done [OF examine_stops [OF resolve_early_exit [OF assms]]])

text \<open>
  C1. When processing reaches a record whose payload is a supported event and whose
  \<^verbatim>\<open>detail.agentConnected\<close> is not \<^verbatim>\<open>False\<close> itself, or whose \<^verbatim>\<open>detail.status\<close> is not
  \<^verbatim>\<open>"ACTIVE"\<close>, the loop returns there with the trace and the list of processed nodes
  as they were: no query and no notification for that record, and no later record is
  looked at. For the whole invocation: if the records before it were all processed, the
  trace of the invocation is the trace of those records and nothing more.
\<close>

theorem early_exit_stops_the_batch:
  assumes "py_get record (u ''body'') = Inr body" and "loads w body = Inr payload"
    and "getitem_str payload (u ''source'') = Inr (PStr (u ''aws.ecs''))"
    and "getitem_str payload (u ''detail-type'') = Inr (PStr (u ''ECS Container Instance State Change''))"
    and "subscripts payload [K (u ''detail''), K (u ''agentConnected'')] = Inr ac"
    and "ac \<noteq> PBool False
         \<or> (\<exists>st. subscripts payload [K (u ''detail''), K (u ''status'')] = Inr st \<and> st \<noteq> PStr (u ''ACTIVE''))"
  shows "handler_loop w cfg (record # later) seen tr = (Return, seen, tr)
         \<and> (\<forall>earlier seen0 tr0.
               handler_loop w (read_config w) earlier [] [] = (Next, seen0, tr0)
               \<longrightarrow> snd (handler w (sqs_event (earlier @ record # later))) = tr0)"
proof (intro conjI allI impI)
  show "handler_loop w cfg (record # later) seen tr = (Return, seen, tr)"
    using early_exit_record [OF assms] by simp
next
  fix earlier seen0 tr0
  assume p: "handler_loop w (read_config w) earlier [] [] = (Next, seen0, tr0)"
  have r: "handler_record w (read_config w) record seen0 tr0 = (Return, seen0, tr0)"
    by (rule early_exit_record [OF assms])
  show "snd (handler w (sqs_event (earlier @ record # later))) = tr0"
    using handler_stops [OF p r, of later] by simp
qed

text \<open>
  C10. The early exit is a normal return of the handler, with no exception. A record whose
  body cannot be decoded, or decodes to \<^verbatim>\<open>None\<close>, or is not the supported kind of
  event, makes the handler raise.
\<close>

theorem early_exit_returns_but_malformed_raises:
  assumes "handler_loop w (read_config w) earlier [] [] = (Next, seen0, tr0)"
    and "py_get record (u ''body'') = Inr body"
  shows "(\<forall>payload ac.
            loads w body = Inr payload
            \<and> getitem_str payload (u ''source'') = Inr (PStr (u ''aws.ecs''))
            \<and> getitem_str payload (u ''detail-type'') = Inr (PStr (u ''ECS Container Instance State Change''))
            \<and> subscripts payload [K (u ''detail''), K (u ''agentConnected'')] = Inr ac
            \<and> (ac \<noteq> PBool False
                \<or> (\<exists>st. subscripts payload [K (u ''detail''), K (u ''status'')] = Inr st
                         \<and> st \<noteq> PStr (u ''ACTIVE'')))
            \<longrightarrow> fst (handler w (sqs_event (earlier @ record # later))) = Inr ())
         \<and> (\<forall>e. loads w body = Inl e
            \<longrightarrow> fst (handler w (sqs_event (earlier @ record # later)))
                  = Inl (Exception ((u ''Error: execution error - '') @ str_exn w e)))
         \<and> (loads w body = Inr PNone
            \<longrightarrow> fst (handler w (sqs_event (earlier @ record # later)))
                  = Inl (Exception
                      (u ''Error: execution error - Message empty! No details to process.'')))
         \<and> (\<forall>payload src.
            loads w body = Inr payload
            \<and> getitem_str payload (u ''source'') = Inr src
            \<and> (src \<noteq> PStr (u ''aws.ecs'')
                \<or> (\<exists>dt. getitem_str payload (u ''detail-type'') = Inr dt
                         \<and> dt \<noteq> PStr (u ''ECS Container Instance State Change'')))
            \<longrightarrow> fst (handler w (sqs_event (earlier @ record # later)))
                  = Inl (Exception
                      (u ''Error: execution error - Only 'aws.ecs' events and Instance state changes are supported.'')))"
proof (intro conjI allI impI)
  fix payload ac
  assume h: "loads w body = Inr payload
            \<and> getitem_str payload (u ''source'') = Inr (PStr (u ''aws.ecs''))
            \<and> getitem_str payload (u ''detail-type'') = Inr (PStr (u ''ECS Container Instance State Change''))
            \<and> subscripts payload [K (u ''detail''), K (u ''agentConnected'')] = Inr ac
            \<and> (ac \<noteq> PBool False
                \<or> (\<exists>st. subscripts payload [K (u ''detail''), K (u ''status'')] = Inr st
                         \<and> st \<noteq> PStr (u ''ACTIVE'')))"
  have "handler_record w (read_config w) record seen0 tr0 = (Return, seen0, tr0)"
    using early_exit_record [OF assms(2), of w payload ac] h by blast
  from handler_stops [OF assms(1) this, of later]
  show "fst (handler w (sqs_event (earlier @ record # later))) = Inr ()" by simp
next
  fix e
  assume "loads w body = Inl e"
  then have "handler_record w (read_config w) record seen0 tr0 = (Raise e, seen0, tr0)"
    using assms(2) by (intro handler_record_done examine_stops resolve_undecodable)
  from handler_stops [OF assms(1) this, of later]
  show "fst (handler w (sqs_event (earlier @ record # later)))
          = Inl (Exception ((u ''Error: execution error - '') @ str_exn w e))" by simp
next
  assume "loads w body = Inr PNone"
  then have "handler_record w (read_config w) record seen0 tr0 =
               (Raise (ValueError (u ''Message empty! No details to process.'')), seen0, tr0)"
    using assms(2) by (intro handler_record_done examine_stops resolve_empty)
  from handler_stops [OF assms(1) this, of later]
  show "fst (handler w (sqs_event (earlier @ record # later)))
          = Inl (Exception (u ''Error: execution error - Message empty! No details to process.''))"
    by (simp add: str_exn_def u_append [symmetric])
next
  fix payload src
  assume h: "loads w body = Inr payload
            \<and> getitem_str payload (u ''source'') = Inr src
            \<and> (src \<noteq> PStr (u ''aws.ecs'')
                \<or> (\<exists>dt. getitem_str payload (u ''detail-type'') = Inr dt
                         \<and> dt \<noteq> PStr (u ''ECS Container Instance State Change'')))"
  have "handler_record w (read_config w) record seen0 tr0 =
          (Raise (ValueError (u ''Only 'aws.ecs' events and Instance state changes are supported.'')),
           seen0, tr0)"
    using h assms(2)
    by (intro handler_record_done examine_stops resolve_unsupported [of _ body w payload src]) auto
  from handler_stops [OF assms(1) this, of later]
  show "fst (handler w (sqs_event (earlier @ record # later)))
          = Inl (Exception
              (u ''Error: execution error - Only 'aws.ecs' events and Instance state changes are supported.''))"
    by (simp add: str_exn_def u_append [symmetric])
qed

subsection \<open>The example records, evaluated\<close>

lemma message_body: "py_get (message b) (u ''body'') = Inr (PStr b)"
  by (simp add: message_def py_get_def)

lemma not_json_examples:
  "\<not> json_value_start (hd (u ''hello''))"
  by (simp add: json_value_start_def u_def cp_def)

lemma example_loads:
  "loads (example_world env a) (PStr body_disconnected)
     = Inr (state_change demo_cluster (PBool False) (u ''ACTIVE''))"
  "loads (example_world env a) (PStr body_reconnected)
     = Inr (state_change demo_cluster (PBool True) (u ''ACTIVE''))"
  "loads (example_world env a) (PStr body_draining)
     = Inr (state_change demo_cluster (PBool False) (u ''DRAINING''))"
  "loads (example_world env a) (PStr body_short_cluster)
     = Inr (state_change (u ''demo'') (PBool False) (u ''ACTIVE''))"
  "loads (example_world env a) (PStr body_other_source)
     = Inr (PDict [((u ''source''), PStr (u ''aws.ec2'')),
                   ((u ''detail-type''), PStr (u ''EC2 Instance State-change Notification'')),
                   ((u ''detail''), PDict [])])"
  "loads (example_world env a) (PStr (u ''null'')) = Inr PNone"
  "loads (example_world env a) (PStr (u ''hello''))
     = Inl (Foreign (u ''JSONDecodeError'') (u ''Expecting value: line 1 column 1 (char 0)''))"
  by (simp_all add: loads_def example_world_simps example_json_loads_def body_disconnected_def
        body_reconnected_def body_draining_def body_short_cluster_def body_other_source_def
        not_json_examples)

lemma state_change_fields:
  "getitem_str (state_change cl a s) (u ''source'') = Inr (PStr (u ''aws.ecs''))"
  "getitem_str (state_change cl a s) (u ''detail-type'')
     = Inr (PStr (u ''ECS Container Instance State Change''))"
  "getitem_str (state_change cl a s) (u ''detail'')
     = Inr (PDict [((u ''containerInstanceArn''), PStr demo_instance_arn),
                   ((u ''clusterArn''), PStr cl), ((u ''agentConnected''), a), ((u ''status''), PStr s)])"
  "subscripts (state_change cl a s) [K (u ''detail''), K (u ''agentConnected'')] = Inr a"
  "subscripts (state_change cl a s) [K (u ''detail''), K (u ''status'')] = Inr (PStr s)"
  by (simp_all add: state_change_def getitem_str_def demo_instance_arn_def)

lemma state_change_detail_fields:
  "getitem_str (PDict [((u ''containerInstanceArn''), PStr i), ((u ''clusterArn''), PStr cl),
                       ((u ''agentConnected''), a), ((u ''status''), PStr s)]) (u ''agentConnected'') = Inr a"
  "getitem_str (PDict [((u ''containerInstanceArn''), PStr i), ((u ''clusterArn''), PStr cl),
                       ((u ''agentConnected''), a), ((u ''status''), PStr s)]) (u ''status'') = Inr (PStr s)"
  "py_get (PDict [((u ''containerInstanceArn''), PStr i), ((u ''clusterArn''), PStr cl),
                  ((u ''agentConnected''), a), ((u ''status''), PStr s)]) (u ''containerInstanceArn'')
     = Inr (PStr i)"
  "py_get (PDict [((u ''containerInstanceArn''), PStr i), ((u ''clusterArn''), PStr cl),
                  ((u ''agentConnected''), a), ((u ''status''), PStr s)]) (u ''clusterArn'') = Inr (PStr cl)"
  by (simp_all add: getitem_str_def py_get_def)

lemma example_node_init:
  "ECSNode_init (example_world env healthy) (PStr demo_instance_arn) (PStr cl) tr =
     (Inr (demo_node\<lparr>cluster_arn := PStr cl\<rparr>), tr @ demo_queries cl)"
proof -
  let ?w = "example_world env healthy"
  have a: "upstream ?w (tr @ [DescribeContainerInstances (PStr cl) (PStr demo_instance_arn)])
             = Inr (container_instances_response (PStr (u ''i-0123abcd'')) (PBool False))"
    by (simp only: example_world_simps answer_simps healthy_simps)
  have b: "upstream ?w (tr @ [DescribeContainerInstances (PStr cl) (PStr demo_instance_arn),
             if re_match (instance_id_pattern ?w) (u ''i-0123abcd'') then DescribeInstances (u ''i-0123abcd'')
             else DescribeInstanceInformation (u ''i-0123abcd'')]) = Inr (instances_response (u ''running''))"
    by (simp add: pattern_examples example_world_simps answer_def healthy_simps)
  have c: "subscripts (instances_response (u ''running''))
             (if re_match (instance_id_pattern ?w) (u ''i-0123abcd'')
              then [K (u ''Reservations''), I 0, K (u ''Instances''), I 0, K (u ''State''), K (u ''Name'')]
              else [K (u ''InstanceInformationList''), I 0, K (u ''PingStatus'')]) = Inr (PStr (u ''running''))"
    by (simp only: pattern_examples if_True example_state_queries)
  show ?thesis
    using ECSNode_init_resolved
            [OF a example_container_instance example_container_instance_fields b c]
    by (simp add: pattern_examples demo_node_def demo_queries_def)
qed

lemma example_resolve:
  assumes "loads (example_world env healthy) (PStr b) = Inr (state_change cl (PBool False) (u ''ACTIVE''))"
  shows "resolve (example_world env healthy) (message b) tr =
           (Inr (demo_node\<lparr>cluster_arn := PStr cl\<rparr>), tr @ demo_queries cl)"
  using resolve_disconnected
          [OF message_body assms state_change_fields(1,2,3) state_change_detail_fields, of tr]
  by (simp add: example_node_init)

lemma example_examine_all_clusters:
  assumes "loads (example_world env_all_clusters healthy) (PStr b)
             = Inr (state_change cl (PBool False) (u ''ACTIVE''))"
  shows "examine (example_world env_all_clusters healthy)
           (read_config (example_world env_all_clusters healthy)) (message b) tr =
           (Eligible (demo_node\<lparr>cluster_arn := PStr cl\<rparr>), tr @ demo_queries cl)"
proof -
  have m: "lower (example_world env_all_clusters healthy) (check_all_clusters (read_config (example_world env_all_clusters healthy)))
             \<in> set [(u ''true''), (u ''yes'')]"
    by (simp add: read_config_examples lower_examples)
  have n: "is_ec2_running (demo_node\<lparr>cluster_arn := PStr cl\<rparr>)"
    "\<not> is_agent_connected (demo_node\<lparr>cluster_arn := PStr cl\<rparr>)"
    by (simp_all add: demo_node_def is_ec2_running_def is_agent_connected_def truthy_def)
  show ?thesis
    unfolding examine_def example_resolve [OF assms] eligible_all_clusters [OF m]
    using n by simp
qed

lemma example_alert:
  assumes "(u ''i-0123abcd'') \<notin> set seen"
    and "email_notification cfg = demo_topic"
  shows "alert (example_world env healthy) cfg (demo_node\<lparr>cluster_arn := PStr cl\<rparr>) seen tr =
           (if (cp CHR ''/'') \<in> set cl
            then (Next, seen @ [(u ''i-0123abcd'')],
                  tr @ [demo_publish cl,
                        LogWarning (rev (takeWhile (\<lambda>c. c \<noteq> (cp CHR ''/'')) (rev cl))
                                    @ (u '' i-0123abcd''))])
            else (Raise IndexError, seen @ [(u ''i-0123abcd'')], tr @ [demo_publish cl]))"
proof -
  let ?n = "demo_node\<lparr>cluster_arn := PStr cl\<rparr>"
  have f: "ec2_id ?n = (u ''i-0123abcd'')" "cluster_arn ?n = PStr cl"
    by (simp_all add: demo_node_def)
  have p: "py_str (example_world env healthy) (PStr cl) = cl" by (simp add: py_str_def)
  have u: "upstream (example_world env healthy)
             (tr @ [Publish (email_notification cfg)
                   ((u ''[ISSUE] ECS Container Instance '') @ ec2_id ?n @ (u '' from Cluster '')
                    @ py_str (example_world env healthy) (cluster_arn ?n)
                    @ (u '' has the ECS Agent disconnected.''))
                   (subject_for (ec2_id ?n))]) = Inr (PDict [((u ''MessageId''), PStr (u ''5e1c''))])"
    by (simp only: example_world_simps answer_simps healthy_simps)
  have s: "ec2_id ?n \<notin> set seen" using assms(1) f by simp
  show ?thesis
    unfolding alert_sent [OF s u]
    by (simp add: f p assms(2) demo_publish_def subject_for_def u_append [symmetric])
qed

lemma example_tag_query:
  "does_cluster_have_tags (example_world env healthy) n (Some (u ''monitor'')) (Some (u ''yes'')) tr
     = (Inr True, tr @ [DescribeClusters (cluster_arn n)])"
proof -
  let ?tags = "[tag (u ''team'') (u ''core''), tag (u ''monitor'') (u ''yes'')]"
  have u: "upstream (example_world env healthy) (tr @ [DescribeClusters (cluster_arn n)])
             = Inr (clusters_response ?tags)"
    by (simp only: example_world_simps answer_simps healthy_simps)
  have wf: "\<forall>e\<in>set ?tags. \<exists>a b. getitem_str e (u ''key'') = Inr a \<and> getitem_str e (u ''value'') = Inr b"
    by (simp add: tag_fields)
  show ?thesis
    using does_cluster_have_tags_answered [OF u example_tags wf, of "(u ''monitor'')" "(u ''yes'')"]
    by (simp add: tag_fields)
qed

lemma demo_node_eligible:
  "is_ec2_running (demo_node\<lparr>cluster_arn := PStr cl\<rparr>)"
  "\<not> is_agent_connected (demo_node\<lparr>cluster_arn := PStr cl\<rparr>)"
  "ec2_id (demo_node\<lparr>cluster_arn := PStr cl\<rparr>) = (u ''i-0123abcd'')"
  "cluster_arn (demo_node\<lparr>cluster_arn := PStr cl\<rparr>) = PStr cl"
  by (simp_all add: demo_node_def is_ec2_running_def is_agent_connected_def truthy_def)

lemma example_examine_tagged:
  assumes "loads (example_world env_tagged healthy) (PStr b)
             = Inr (state_change cl (PBool False) (u ''ACTIVE''))"
  shows "examine (example_world env_tagged healthy)
           (read_config (example_world env_tagged healthy)) (message b) tr =
           (Eligible (demo_node\<lparr>cluster_arn := PStr cl\<rparr>),
            tr @ demo_queries cl @ [DescribeClusters (PStr cl)])"
proof -
  let ?w = "example_world env_tagged healthy"
  let ?n = "demo_node\<lparr>cluster_arn := PStr cl\<rparr>"
  have "eligible ?w (read_config ?w) ?n (tr @ demo_queries cl)
          = (Inr True, (tr @ demo_queries cl) @ [DescribeClusters (PStr cl)])"
    unfolding eligible_def
    by (simp add: read_config_examples lower_examples example_tag_query demo_node_eligible)
  then show ?thesis
    unfolding examine_def example_resolve [OF assms] by simp
qed

lemma demo_cluster_short_name:
  "(cp CHR ''/'') \<in> set demo_cluster"
  "rev (takeWhile (\<lambda>c. c \<noteq> (cp CHR ''/'')) (rev demo_cluster)) = (u ''demo'')"
  "(cp CHR ''/'') \<notin> set (u ''demo'')"
  by (simp_all add: demo_cluster_def u_def cp_def)

lemma example_topic:
  "email_notification (read_config (example_world env_tagged a)) = demo_topic"
  "email_notification (read_config (example_world env_all_clusters a)) = demo_topic"
  by (simp_all add: read_config_examples demo_topic_def)

lemma example_record_tagged:
  "(u ''i-0123abcd'') \<notin> set seen \<Longrightarrow>
     handler_record (example_world env_tagged healthy)
       (read_config (example_world env_tagged healthy)) (message body_disconnected) seen tr
     = (Next, seen @ [(u ''i-0123abcd'')], tr @ demo_alert_tagged)"
  "(u ''i-0123abcd'') \<in> set seen \<Longrightarrow>
     handler_record (example_world env_tagged healthy)
       (read_config (example_world env_tagged healthy)) (message body_disconnected) seen tr
     = (Next, seen, tr @ demo_queries demo_cluster @ [DescribeClusters (PStr demo_cluster)])"
proof -
  note e = handler_record_eligible [OF example_examine_tagged [OF example_loads(1)]]
  show "(u ''i-0123abcd'') \<notin> set seen \<Longrightarrow>
     handler_record (example_world env_tagged healthy)
       (read_config (example_world env_tagged healthy)) (message body_disconnected) seen tr
     = (Next, seen @ [(u ''i-0123abcd'')], tr @ demo_alert_tagged)"
    unfolding e
    by (simp add: example_alert [OF _ example_topic(1)] demo_cluster_short_name
          demo_alert_tagged_def u_append [symmetric])
  show "(u ''i-0123abcd'') \<in> set seen \<Longrightarrow>
     handler_record (example_world env_tagged healthy)
       (read_config (example_world env_tagged healthy)) (message body_disconnected) seen tr
     = (Next, seen, tr @ demo_queries demo_cluster @ [DescribeClusters (PStr demo_cluster)])"
    unfolding e by (simp add: alert_seen demo_node_eligible)
qed

lemma example_record_all:
  "(u ''i-0123abcd'') \<notin> set seen \<Longrightarrow>
     handler_record (example_world env_all_clusters healthy)
       (read_config (example_world env_all_clusters healthy)) (message body_disconnected) seen tr
     = (Next, seen @ [(u ''i-0123abcd'')], tr @ demo_alert_all)"
  "(u ''i-0123abcd'') \<notin> set seen \<Longrightarrow>
     handler_record (example_world env_all_clusters healthy)
       (read_config (example_world env_all_clusters healthy)) (message body_short_cluster) seen tr
     = (Raise IndexError, seen @ [(u ''i-0123abcd'')],
        tr @ demo_queries (u ''demo'') @ [demo_publish (u ''demo'')])"
proof -
  note e = handler_record_eligible [OF example_examine_all_clusters [OF example_loads(1)]]
  note s = handler_record_eligible [OF example_examine_all_clusters [OF example_loads(4)]]
  show "(u ''i-0123abcd'') \<notin> set seen \<Longrightarrow>
     handler_record (example_world env_all_clusters healthy)
       (read_config (example_world env_all_clusters healthy)) (message body_disconnected) seen tr
     = (Next, seen @ [(u ''i-0123abcd'')], tr @ demo_alert_all)"
    unfolding e
    by (simp add: example_alert [OF _ example_topic(2)] demo_cluster_short_name demo_alert_all_def
          u_append [symmetric])
  show "(u ''i-0123abcd'') \<notin> set seen \<Longrightarrow>
     handler_record (example_world env_all_clusters healthy)
       (read_config (example_world env_all_clusters healthy)) (message body_short_cluster) seen tr
     = (Raise IndexError, seen @ [(u ''i-0123abcd'')],
        tr @ demo_queries (u ''demo'') @ [demo_publish (u ''demo'')])"
    unfolding s
    by (simp add: example_alert [OF _ example_topic(2)] demo_cluster_short_name)
qed

lemma example_prefix:
  "handler_loop (example_world env_tagged healthy) (read_config (example_world env_tagged healthy))
     [message body_disconnected] [] [] = (Next, [(u ''i-0123abcd'')], demo_alert_tagged)"
  "handler_loop (example_world env_all_clusters healthy)
     (read_config (example_world env_all_clusters healthy))
     [message body_disconnected] [] [] = (Next, [(u ''i-0123abcd'')], demo_alert_all)"
  by (simp_all add: example_record_tagged example_record_all)

theorem early_exit_stops_the_batch_witness:
  "handler_loop (example_world env_tagged healthy) (read_config (example_world env_tagged healthy))
     [message body_reconnected, message body_disconnected] [(u ''i-0123abcd'')] demo_alert_tagged
     = (Return, [(u ''i-0123abcd'')], demo_alert_tagged)
   \<and> snd (handler (example_world env_tagged healthy)
           (sqs_event [message body_disconnected, message body_reconnected,
                       message body_disconnected])) = demo_alert_tagged
   \<and> handler_loop (example_world env_tagged healthy) (read_config (example_world env_tagged healthy))
       [message body_draining, message body_disconnected] [] [] = (Return, [], [])"
proof -
  let ?w = "example_world env_tagged healthy"
  have a: "PBool True \<noteq> PBool False
           \<or> (\<exists>st. subscripts (state_change demo_cluster (PBool True) (u ''ACTIVE''))
                      [K (u ''detail''), K (u ''status'')] = Inr st \<and> st \<noteq> PStr (u ''ACTIVE''))"
    by simp
  have b: "PBool False \<noteq> PBool False
           \<or> (\<exists>st. subscripts (state_change demo_cluster (PBool False) (u ''DRAINING''))
                      [K (u ''detail''), K (u ''status'')] = Inr st \<and> st \<noteq> PStr (u ''ACTIVE''))"
    by (simp add: state_change_fields state_change_detail_fields)
  note t1 = early_exit_stops_the_batch
    [of "message body_reconnected" "PStr body_reconnected" ?w
        "state_change demo_cluster (PBool True) (u ''ACTIVE'')" "PBool True"
        "read_config ?w" "[message body_disconnected]" "[(u ''i-0123abcd'')]" demo_alert_tagged,
     OF message_body example_loads(2) state_change_fields(1,2,4) a]
  note t2 = early_exit_stops_the_batch
    [of "message body_draining" "PStr body_draining" ?w
        "state_change demo_cluster (PBool False) (u ''DRAINING'')" "PBool False"
        "read_config ?w" "[message body_disconnected]" "[]" "[]",
     OF message_body example_loads(3) state_change_fields(1,2,4) b]
  have 1: "handler_loop ?w (read_config ?w)
     [message body_reconnected, message body_disconnected] [(u ''i-0123abcd'')] demo_alert_tagged
     = (Return, [(u ''i-0123abcd'')], demo_alert_tagged)"
    using t1 by blast
  have 2: "snd (handler ?w (sqs_event ([message body_disconnected]
              @ message body_reconnected # [message body_disconnected]))) = demo_alert_tagged"
    using t1 example_prefix(1) by blast
  have 3: "handler_loop ?w (read_config ?w)
       [message body_draining, message body_disconnected] [] [] = (Return, [], [])"
    using t2 by blast
  show ?thesis using 1 2 3 by simp
qed

theorem early_exit_returns_but_malformed_raises_witness:
  "fst (handler (example_world env_tagged healthy)
         (sqs_event [message body_disconnected, message body_reconnected,
                     message body_disconnected])) = Inr ()
   \<and> fst (handler (example_world env_tagged healthy)
         (sqs_event [message body_disconnected, message (u ''hello''), message body_disconnected]))
       = Inl (Exception
           (u ''Error: execution error - Expecting value: line 1 column 1 (char 0)''))
   \<and> fst (handler (example_world env_tagged healthy)
         (sqs_event [message body_disconnected, message (u ''null''), message body_disconnected]))
       = Inl (Exception (u ''Error: execution error - Message empty! No details to process.''))
   \<and> fst (handler (example_world env_tagged healthy)
         (sqs_event [message body_disconnected, message body_other_source,
                     message body_disconnected]))
       = Inl (Exception
           (u ''Error: execution error - Only 'aws.ecs' events and Instance state changes are supported.''))"
proof -
  let ?w = "example_world env_tagged healthy"
  note t = early_exit_returns_but_malformed_raises [OF example_prefix(1) message_body]
  have 1: "fst (handler ?w (sqs_event ([message body_disconnected]
              @ message body_reconnected # [message body_disconnected]))) = Inr ()"
    using t [of body_reconnected "[message body_disconnected]", THEN conjunct1, rule_format,
             of "state_change demo_cluster (PBool True) (u ''ACTIVE'')" "PBool True"]
    by (simp add: example_loads state_change_fields state_change_detail_fields)
  have 2: "fst (handler ?w (sqs_event ([message body_disconnected]
              @ message (u ''hello'') # [message body_disconnected])))
       = Inl (Exception (u ''Error: execution error - Expecting value: line 1 column 1 (char 0)''))"
    using t [of "(u ''hello'')" "[message body_disconnected]", THEN conjunct2, THEN conjunct1,
             rule_format, OF example_loads(7)]
    by (simp add: str_exn_def example_world_simps example_exn_str_def u_append [symmetric])
  have 3: "fst (handler ?w (sqs_event ([message body_disconnected]
              @ message (u ''null'') # [message body_disconnected])))
       = Inl (Exception (u ''Error: execution error - Message empty! No details to process.''))"
    using t [of "(u ''null'')" "[message body_disconnected]", THEN conjunct2, THEN conjunct2,
             THEN conjunct1, rule_format, OF example_loads(6)]
    by simp
  have 4: "fst (handler ?w (sqs_event ([message body_disconnected]
              @ message body_other_source # [message body_disconnected])))
       = Inl (Exception
           (u ''Error: execution error - Only 'aws.ecs' events and Instance state changes are supported.''))"
    using t [of body_other_source "[message body_disconnected]", THEN conjunct2, THEN conjunct2,
             THEN conjunct2, rule_format,
             of "PDict [((u ''source''), PStr (u ''aws.ec2'')),
                   ((u ''detail-type''), PStr (u ''EC2 Instance State-change Notification'')),
                   ((u ''detail''), PDict [])]" "PStr (u ''aws.ec2'')"]
    by (simp add: example_loads getitem_str_def)
  show ?thesis using 1 2 3 4 by simp
qed

subsection \<open>Duplicates within one batch\<close>

lemma eligible_record_seen:
  assumes "examine w cfg record tr = (Eligible node, tr1)" and "ec2_id node \<in> set seen"
  shows "handler_record w cfg record seen tr = (Next, seen, tr1) \<and> subjects tr1 = subjects tr"
proof -
  have "subjects tr1 = subjects tr"
    using examine_adds [of w cfg "record" tr] assms(1) by (auto simp: subjects_append)
  then show ?thesis
    using handler_record_eligible [OF assms(1)] alert_seen [OF assms(2)] by simp
qed

lemma eligible_record_new:
  assumes "examine w cfg record tr = (Eligible node, tr1)" and "ec2_id node \<notin> set seen"
  shows "\<exists>f tr2. handler_record w cfg record seen tr = (f, seen @ [ec2_id node], tr2)
                \<and> subjects tr2 = subjects tr @ [subject_for (ec2_id node)]"
proof -
  have "subjects tr1 = subjects tr"
    using examine_adds [of w cfg "record" tr] assms(1) by (auto simp: subjects_append)
  then show ?thesis
    using handler_record_eligible [OF assms(1)] alert_new [OF assms(2), of w cfg tr1]
    by (auto simp: subjects_append)
qed

text \<open>
  C3. The list of processed nodes starts empty in each invocation. Over any run of the
  loop it only grows, by distinct node identifiers that were not in it, and the
  notifications sent during the run are exactly one per identifier added, in the same
  order; so no invocation sends two notifications for one node. An eligible record whose
  node identifier is already in the list sends nothing and leaves the list as it is; one
  whose identifier is not in the list is added and sends exactly one notification. Hence
  two consecutive eligible records that resolve to the same identifier send exactly one.
\<close>

theorem one_notification_per_node:
  "handler_try w (sqs_event records) = handler_loop w (read_config w) records [] []
   \<and> (\<forall>f seen' tr'. handler_loop w cfg records seen tr = (f, seen', tr') \<longrightarrow>
        (\<exists>new. seen' = seen @ new \<and> subjects tr' = subjects tr @ map subject_for new
               \<and> distinct new \<and> set new \<inter> set seen = {}))
   \<and> distinct (subjects (snd (handler w event)))
   \<and> (\<forall>r node tr1. examine w cfg r tr = (Eligible node, tr1) \<and> ec2_id node \<in> set seen \<longrightarrow>
        handler_record w cfg r seen tr = (Next, seen, tr1) \<and> subjects tr1 = subjects tr)
   \<and> (\<forall>r node tr1. examine w cfg r tr = (Eligible node, tr1) \<and> ec2_id node \<notin> set seen \<longrightarrow>
        (\<exists>f tr2. handler_record w cfg r seen tr = (f, seen @ [ec2_id node], tr2)
                 \<and> subjects tr2 = subjects tr @ [subject_for (ec2_id node)]))
   \<and> (\<forall>r1 r2 n1 n2 tr1 seen1 tr1' tr2.
        examine w cfg r1 tr = (Eligible n1, tr1) \<and> ec2_id n1 \<notin> set seen
        \<and> handler_record w cfg r1 seen tr = (Next, seen1, tr1')
        \<and> examine w cfg r2 tr1' = (Eligible n2, tr2) \<and> ec2_id n2 = ec2_id n1
        \<longrightarrow> handler_loop w cfg [r1, r2] seen tr = (Next, seen @ [ec2_id n1], tr2)
            \<and> subjects tr2 = subjects tr @ [subject_for (ec2_id n1)])"
proof (intro conjI allI impI)
  show "handler_try w (sqs_event records) = handler_loop w (read_config w) records [] []"
    by (rule handler_try_sqs_event)
next
  fix f seen' tr'
  assume "handler_loop w cfg records seen tr = (f, seen', tr')"
  then show "\<exists>new. seen' = seen @ new \<and> subjects tr' = subjects tr @ map subject_for new
               \<and> distinct new \<and> set new \<inter> set seen = {}"
    by (rule handler_loop_grows)
next
  show "distinct (subjects (snd (handler w event)))" by (rule handler_subjects_distinct)
next
  fix r node tr1
  assume h: "examine w cfg r tr = (Eligible node, tr1) \<and> ec2_id node \<in> set seen"
  show "handler_record w cfg r seen tr = (Next, seen, tr1)" "subjects tr1 = subjects tr"
    using eligible_record_seen h by blast+
next
  fix r node tr1
  assume h: "examine w cfg r tr = (Eligible node, tr1) \<and> ec2_id node \<notin> set seen"
  show "\<exists>f tr2. handler_record w cfg r seen tr = (f, seen @ [ec2_id node], tr2)
                 \<and> subjects tr2 = subjects tr @ [subject_for (ec2_id node)]"
    using eligible_record_new h by blast
next
  fix r1 r2 n1 n2 tr1 seen1 tr1' tr2
  assume h: "examine w cfg r1 tr = (Eligible n1, tr1) \<and> ec2_id n1 \<notin> set seen
        \<and> handler_record w cfg r1 seen tr = (Next, seen1, tr1')
        \<and> examine w cfg r2 tr1' = (Eligible n2, tr2) \<and> ec2_id n2 = ec2_id n1"
  obtain f t where a: "handler_record w cfg r1 seen tr = (f, seen @ [ec2_id n1], t)"
    "subjects t = subjects tr @ [subject_for (ec2_id n1)]"
    using eligible_record_new h by blast
  have s1: "seen1 = seen @ [ec2_id n1]" "tr1' = t" using a h by simp_all
  have "ec2_id n2 \<in> set seen1" using s1 h by simp
  then have b: "handler_record w cfg r2 seen1 tr1' = (Next, seen1, tr2)"
    "subjects tr2 = subjects tr1'"
    using eligible_record_seen h by blast+
  show "handler_loop w cfg [r1, r2] seen tr = (Next, seen @ [ec2_id n1], tr2)"
    using h b s1 by simp
  show "subjects tr2 = subjects tr @ [subject_for (ec2_id n1)]"
    using a b s1 by simp
qed

theorem one_notification_per_node_witness:
  "handler_loop (example_world env_tagged healthy) (read_config (example_world env_tagged healthy))
     [message body_disconnected, message body_disconnected] [] []
     = (Next, [(u ''i-0123abcd'')],
        demo_alert_tagged @ demo_queries demo_cluster @ [DescribeClusters (PStr demo_cluster)])
   \<and> subjects (demo_alert_tagged @ demo_queries demo_cluster @ [DescribeClusters (PStr demo_cluster)])
     = [(u ''[ISSUE] ECS Instance - i-0123abcd'')]"
proof -
  let ?w = "example_world env_tagged healthy"
  let ?d = "message body_disconnected"
  have e1: "examine ?w (read_config ?w) ?d []
              = (Eligible (demo_node\<lparr>cluster_arn := PStr demo_cluster\<rparr>),
                 [] @ demo_queries demo_cluster @ [DescribeClusters (PStr demo_cluster)])"
    by (rule example_examine_tagged [OF example_loads(1)])
  have e2: "examine ?w (read_config ?w) ?d demo_alert_tagged
              = (Eligible (demo_node\<lparr>cluster_arn := PStr demo_cluster\<rparr>),
                 demo_alert_tagged @ demo_queries demo_cluster
                   @ [DescribeClusters (PStr demo_cluster)])"
    by (rule example_examine_tagged [OF example_loads(1)])
  have r1: "handler_record ?w (read_config ?w) ?d [] [] = (Next, [(u ''i-0123abcd'')], demo_alert_tagged)"
    using example_record_tagged(1) [of "[]" "[]"] by simp
  have n: "ec2_id (demo_node\<lparr>cluster_arn := PStr demo_cluster\<rparr>) \<notin> set []" by simp
  from one_notification_per_node [of ?w "[]" "read_config ?w" "[]" "[]" PNone,
         THEN conjunct2, THEN conjunct2, THEN conjunct2, THEN conjunct2, THEN conjunct2,
         rule_format, OF conjI [OF e1 conjI [OF n conjI [OF r1 conjI [OF e2 refl]]]]]
  show ?thesis by (simp add: demo_node_eligible subject_for_def u_append [symmetric])
qed

subsection \<open>Monitoring every cluster\<close>







subsection \<open>Failures\<close>

lemma client_error_carries:
  assumes "py_get resp (u ''Error'') = Inr err" and "py_get err (u ''Code'') = Inr code"
    and "py_get err (u ''Message'') = Inr msg"
  shows "client_error w prefix resp = Exception (prefix @ py_str w code @ (u '' : '') @ py_str w msg)"
  using assms by (simp add: client_error_def)

lemma fetch_ec2_details_first_call_fails:
  assumes "upstream w (tr @ [DescribeContainerInstances cl arn]) = Inl e"
  shows "fetch_ec2_details w arn cl tr =
           (Inl (case e of
                   ClientError resp \<Rightarrow>
                     client_error w (u ''Error: An error occurred when fetching instance details - '') resp
                 | _ \<Rightarrow> Exception ((u ''Error: An error occurred when fetching instance details - '')
                                    @ str_exn w e)),
            tr @ [DescribeContainerInstances cl arn])"
proof -
  have "fetch_ec2_details_try w arn cl tr = (Inl e, tr @ [DescribeContainerInstances cl arn])"
    using assms by (simp add: fetch_ec2_details_try_def call_def)
  then show ?thesis by (cases e) (simp_all add: fetch_ec2_details_def)
qed

lemma does_cluster_have_tags_call_fails:
  assumes "upstream w (tr @ [DescribeClusters (cluster_arn self)]) = Inl e"
  shows "does_cluster_have_tags w self (Some k) (Some v) tr =
           (Inl (case e of
                   ClientError resp \<Rightarrow>
                     client_error w (u ''Error: An error occurred when checking Cluster tags - '') resp
                 | _ \<Rightarrow> Exception (u ''Error: An error occurred when checking Cluster tags.'')),
            tr @ [DescribeClusters (cluster_arn self)])"
proof -
  have "does_cluster_have_tags_try w self k v tr
          = (Inl e, tr @ [DescribeClusters (cluster_arn self)])"
    using assms by (simp add: does_cluster_have_tags_try_def call_def)
  then show ?thesis by (cases e) (simp_all add: does_cluster_have_tags_def)
qed

lemma send_email_fails:
  assumes "upstream w (tr @ [Publish topic body subject]) = Inl e"
  shows "send_email w topic subject body tr =
           (Inl (case e of
                   ClientError resp \<Rightarrow>
                     client_error w (u ''Error: An error occurred when sending the e-mail - '') resp
                 | _ \<Rightarrow> Exception ((u ''Error: An error occurred when sending the e-mail - '')
                                    @ str_exn w e)),
            tr @ [Publish topic body subject])"
  using assms by (cases e) (simp_all add: send_email_def call_def)

lemma handler_result:
  "fst (handler w event) = Inr ()
   \<or> (\<exists>m. fst (handler w event) = Inl (Exception ((u ''Error: execution error - '') @ m)))"
proof -
  obtain f s t where h: "handler_try w event = (f, s, t)" by (cases "handler_try w event")
  show ?thesis using h by (cases f) (simp_all add: handler_def)
qed

lemma client_error_response_fields:
  "py_get (client_error_response code msg) (u ''Error'')
     = Inr (PDict [((u ''Code''), PStr code), ((u ''Message''), PStr msg)])"
  "py_get (PDict [((u ''Code''), PStr code), ((u ''Message''), PStr msg)]) (u ''Code'') = Inr (PStr code)"
  "py_get (PDict [((u ''Code''), PStr code), ((u ''Message''), PStr msg)]) (u ''Message'') = Inr (PStr msg)"
  by (simp_all add: client_error_response_def py_get_def)

lemma client_error_example:
  "client_error w prefix (client_error_response code msg)
     = Exception (prefix @ code @ (u '' : '') @ msg)"
  by (simp add: client_error_carries [OF client_error_response_fields] py_str_def)

subsection \<open>A failure of a collaborator, seen from the invoking environment\<close>

text \<open>
  The first query of the node resolution raises, in a record that passes the checks: the
  handler raises the error \<^verbatim>\<open>fetch_ec2_details\<close> puts in its place, wrapped once more,
  and the trace ends with that query.
\<close>

lemma node_query_failure_aborts:
  assumes "handler_loop w (read_config w) earlier [] [] = (Next, seen0, tr0)"
    and "py_get r (u ''body'') = Inr body" and "loads w body = Inr payload"
    and "getitem_str payload (u ''source'') = Inr (PStr (u ''aws.ecs''))"
    and "getitem_str payload (u ''detail-type'') = Inr (PStr (u ''ECS Container Instance State Change''))"
    and "getitem_str payload (u ''detail'') = Inr detail"
    and "getitem_str detail (u ''agentConnected'') = Inr (PBool False)"
    and "getitem_str detail (u ''status'') = Inr (PStr (u ''ACTIVE''))"
    and "py_get detail (u ''containerInstanceArn'') = Inr arn"
    and "py_get detail (u ''clusterArn'') = Inr cl"
    and "upstream w (tr0 @ [DescribeContainerInstances cl arn]) = Inl e"
  shows "handler w (sqs_event (earlier @ r # later)) =
           (Inl (Exception ((u ''Error: execution error - '') @ str_exn w
              (case e of
                 ClientError resp \<Rightarrow>
                   client_error w (u ''Error: An error occurred when fetching instance details - '') resp
               | _ \<Rightarrow> Exception ((u ''Error: An error occurred when fetching instance details - '')
                                  @ str_exn w e)))),
            tr0 @ [DescribeContainerInstances cl arn])"
proof -
  let ?e = "case e of
              ClientError resp \<Rightarrow>
                client_error w (u ''Error: An error occurred when fetching instance details - '') resp
            | _ \<Rightarrow> Exception ((u ''Error: An error occurred when fetching instance details - '')
                               @ str_exn w e)"
  have "resolve w r tr0 = (Inl (Raise ?e), tr0 @ [DescribeContainerInstances cl arn])"
    using resolve_disconnected [OF assms(2-10), of tr0]
    by (simp add: ECSNode_init_def fetch_ec2_details_first_call_fails [OF assms(11)])
  then have r: "handler_record w (read_config w) r seen0 tr0
                  = (Raise ?e, seen0, tr0 @ [DescribeContainerInstances cl arn])"
    by (intro handler_record_done examine_stops)
  have n: "Raise ?e \<noteq> Next" by simp
  from handler_stops [OF assms(1) r n, of later] show ?thesis by simp
qed

text \<open>
  The tag query raises, for a resolved node, when the tags are configured and monitoring
  of every cluster is off: the handler raises the error \<^verbatim>\<open>does_cluster_have_tags\<close> puts
  in its place, wrapped once more, and the trace ends with that query.
\<close>

lemma tag_query_failure_aborts:
  assumes "handler_loop w (read_config w) earlier [] [] = (Next, seen0, tr0)"
    and "resolve w r tr0 = (Inr node, tr1)"
    and "lower w (check_all_clusters (read_config w)) \<notin> set [(u ''true''), (u ''yes'')]"
    and "tag_key (read_config w) = Some k" and "tag_value (read_config w) = Some v"
    and "upstream w (tr1 @ [DescribeClusters (cluster_arn node)]) = Inl e"
  shows "handler w (sqs_event (earlier @ r # later)) =
           (Inl (Exception ((u ''Error: execution error - '') @ str_exn w
              (case e of
                 ClientError resp \<Rightarrow>
                   client_error w (u ''Error: An error occurred when checking Cluster tags - '') resp
               | _ \<Rightarrow> Exception (u ''Error: An error occurred when checking Cluster tags.'')))),
            tr1 @ [DescribeClusters (cluster_arn node)])"
proof -
  let ?e = "case e of
              ClientError resp \<Rightarrow>
                client_error w (u ''Error: An error occurred when checking Cluster tags - '') resp
            | _ \<Rightarrow> Exception (u ''Error: An error occurred when checking Cluster tags.'')"
  have "eligible w (read_config w) node tr1 = (Inl ?e, tr1 @ [DescribeClusters (cluster_arn node)])"
    using assms(3)
    by (simp add: eligible_def assms(4,5) does_cluster_have_tags_call_fails [OF assms(6)])
  then have "examine w (read_config w) r tr0
               = (Done (Raise ?e), tr1 @ [DescribeClusters (cluster_arn node)])"
    by (simp add: examine_def assms(2))
  then have r: "handler_record w (read_config w) r seen0 tr0
                  = (Raise ?e, seen0, tr1 @ [DescribeClusters (cluster_arn node)])"
    by (rule handler_record_done)
  have n: "Raise ?e \<noteq> Next" by simp
  from handler_stops [OF assms(1) r n, of later] show ?thesis by simp
qed

text \<open>
  The publish raises, for an eligible node not yet alerted: the handler raises the error
  \<^verbatim>\<open>send_email\<close> puts in its place, wrapped once more, and the trace ends with the
  publish.
\<close>

lemma publish_failure_aborts:
  assumes "handler_loop w (read_config w) earlier [] [] = (Next, seen0, tr0)"
    and "examine w (read_config w) r tr0 = (Eligible node, tr1)"
    and "ec2_id node \<notin> set seen0"
    and "upstream w (tr1 @ [Publish (email_notification (read_config w))
                   ((u ''[ISSUE] ECS Container Instance '') @ ec2_id node @ (u '' from Cluster '')
                    @ py_str w (cluster_arn node) @ (u '' has the ECS Agent disconnected.''))
                   (subject_for (ec2_id node))]) = Inl e"
  shows "handler w (sqs_event (earlier @ r # later)) =
           (Inl (Exception ((u ''Error: execution error - '') @ str_exn w
              (case e of
                 ClientError resp \<Rightarrow>
                   client_error w (u ''Error: An error occurred when sending the e-mail - '') resp
               | _ \<Rightarrow> Exception ((u ''Error: An error occurred when sending the e-mail - '')
                                  @ str_exn w e)))),
            tr1 @ [Publish (email_notification (read_config w))
                   ((u ''[ISSUE] ECS Container Instance '') @ ec2_id node @ (u '' from Cluster '')
                    @ py_str w (cluster_arn node) @ (u '' has the ECS Agent disconnected.''))
                   (subject_for (ec2_id node))])"
proof -
  let ?e = "case e of
              ClientError resp \<Rightarrow>
                client_error w (u ''Error: An error occurred when sending the e-mail - '') resp
            | _ \<Rightarrow> Exception ((u ''Error: An error occurred when sending the e-mail - '')
                               @ str_exn w e)"
  let ?p = "Publish (email_notification (read_config w))
                   ((u ''[ISSUE] ECS Container Instance '') @ ec2_id node @ (u '' from Cluster '')
                    @ py_str w (cluster_arn node) @ (u '' has the ECS Agent disconnected.''))
                   (subject_for (ec2_id node))"
  have s: "send_email w (email_notification (read_config w)) (subject_for (ec2_id node))
             ((u ''[ISSUE] ECS Container Instance '') @ ec2_id node @ (u '' from Cluster '')
              @ py_str w (cluster_arn node) @ (u '' has the ECS Agent disconnected.'')) tr1
             = (Inl ?e, tr1 @ [?p])"
    by (rule send_email_fails [OF assms(4)])
  have "alert w (read_config w) node seen0 tr1 = (Raise ?e, seen0 @ [ec2_id node], tr1 @ [?p])"
    using assms(3) s by (simp add: alert_def get_ec2_item_def Let_def subject_for_def)
  then have r: "handler_record w (read_config w) r seen0 tr0
                  = (Raise ?e, seen0 @ [ec2_id node], tr1 @ [?p])"
    by (simp add: handler_record_eligible [OF assms(2)])
  have n: "Raise ?e \<noteq> Next" by simp
  from handler_stops [OF assms(1) r n, of later] show ?thesis by simp
qed

subsection \<open>The failing worlds, evaluated\<close>

lemma failing_world_simps:
  "container_instances tags_unreachable = container_instances healthy"
  "instances tags_unreachable = instances healthy"
  "clusters tags_unreachable = Inl connection_reset"
  "container_instances tags_denied = container_instances healthy"
  "instances tags_denied = instances healthy"
  "clusters tags_denied =
     Inl (ClientError (client_error_response (u ''AccessDeniedException'')
            (u ''User is not authorized to perform: ecs:DescribeClusters'')))"
  "container_instances publish_unreachable = container_instances healthy"
  "instances publish_unreachable = instances healthy"
  "clusters publish_unreachable = clusters healthy"
  "published publish_unreachable = Inl connection_reset"
  "container_instances node_unreachable = Inl connection_reset"
  "container_instances cluster_not_found =
     Inl (ClientError (client_error_response (u ''ClusterNotFoundException'')
            (u ''Cluster not found.'')))"
  by (simp_all add: tags_unreachable_def tags_denied_def publish_unreachable_def
        node_unreachable_def cluster_not_found_def)

lemma node_init_answers:
  assumes "container_instances a = container_instances healthy"
    and "instances a = instances healthy"
  shows "ECSNode_init (example_world env a) (PStr demo_instance_arn) (PStr cl) tr =
           (Inr (demo_node\<lparr>cluster_arn := PStr cl\<rparr>), tr @ demo_queries cl)"
proof -
  let ?w = "example_world env a"
  have a: "upstream ?w (tr @ [DescribeContainerInstances (PStr cl) (PStr demo_instance_arn)])
             = Inr (container_instances_response (PStr (u ''i-0123abcd'')) (PBool False))"
    by (simp only: example_world_simps answer_simps assms healthy_simps)
  have b: "upstream ?w (tr @ [DescribeContainerInstances (PStr cl) (PStr demo_instance_arn),
             if re_match (instance_id_pattern ?w) (u ''i-0123abcd'') then DescribeInstances (u ''i-0123abcd'')
             else DescribeInstanceInformation (u ''i-0123abcd'')]) = Inr (instances_response (u ''running''))"
    by (simp add: pattern_examples example_world_simps answer_def assms healthy_simps)
  have c: "subscripts (instances_response (u ''running''))
             (if re_match (instance_id_pattern ?w) (u ''i-0123abcd'')
              then [K (u ''Reservations''), I 0, K (u ''Instances''), I 0, K (u ''State''), K (u ''Name'')]
              else [K (u ''InstanceInformationList''), I 0, K (u ''PingStatus'')]) = Inr (PStr (u ''running''))"
    by (simp only: pattern_examples if_True example_state_queries)
  show ?thesis
    using ECSNode_init_resolved
            [OF a example_container_instance example_container_instance_fields b c]
    by (simp add: pattern_examples demo_node_def demo_queries_def)
qed

lemma resolve_answers:
  assumes "container_instances a = container_instances healthy"
    and "instances a = instances healthy"
  shows "resolve (example_world env a) (message body_disconnected) tr =
           (Inr (demo_node\<lparr>cluster_arn := PStr demo_cluster\<rparr>), tr @ demo_queries demo_cluster)"
  using resolve_disconnected
          [OF message_body example_loads(1) state_change_fields(1,2,3) state_change_detail_fields]
  by (simp add: node_init_answers [OF assms])

lemma examine_answers:
  assumes "container_instances a = container_instances healthy"
    and "instances a = instances healthy"
    and "clusters a = clusters healthy"
  shows "examine (example_world env_tagged a) (read_config (example_world env_tagged a))
           (message body_disconnected) tr =
           (Eligible (demo_node\<lparr>cluster_arn := PStr demo_cluster\<rparr>),
            tr @ demo_queries demo_cluster @ [DescribeClusters (PStr demo_cluster)])"
proof -
  let ?w = "example_world env_tagged a"
  let ?n = "demo_node\<lparr>cluster_arn := PStr demo_cluster\<rparr>"
  let ?tags = "[tag (u ''team'') (u ''core''), tag (u ''monitor'') (u ''yes'')]"
  let ?tr = "tr @ demo_queries demo_cluster"
  have q: "upstream ?w (?tr @ [DescribeClusters (cluster_arn ?n)]) = Inr (clusters_response ?tags)"
    by (simp only: example_world_simps answer_simps assms healthy_simps)
  have wf: "\<forall>e\<in>set ?tags. \<exists>a b. getitem_str e (u ''key'') = Inr a \<and> getitem_str e (u ''value'') = Inr b"
    by (simp add: tag_fields)
  have t: "does_cluster_have_tags ?w ?n (Some (u ''monitor'')) (Some (u ''yes'')) ?tr
             = (Inr True, ?tr @ [DescribeClusters (cluster_arn ?n)])"
    using does_cluster_have_tags_answered [OF q example_tags wf, of "(u ''monitor'')" "(u ''yes'')"]
    by (simp add: tag_fields)
  have "eligible ?w (read_config ?w) ?n ?tr = (Inr True, ?tr @ [DescribeClusters (PStr demo_cluster)])"
    unfolding eligible_def
    by (simp add: read_config_examples lower_examples t demo_node_eligible)
  then show ?thesis
    unfolding examine_def resolve_answers [OF assms(1,2)] by simp
qed

lemma tagged_config:
  "lower (example_world env_tagged a) (check_all_clusters (read_config (example_world env_tagged a)))
     \<notin> set [(u ''true''), (u ''yes'')]"
  "tag_key (read_config (example_world env_tagged a)) = Some (u ''monitor'')"
  "tag_value (read_config (example_world env_tagged a)) = Some (u ''yes'')"
  by (simp_all add: read_config_examples lower_examples)

lemma empty_prefix: "handler_loop w (read_config w) [] [] [] = (Next, [], [])"
  by simp

text \<open>
  C7. A batch of two records about the disconnected node, in the world where the tags are
  configured, with one collaborator failing at the first record. In each case the handler
  stops at that record (the trace ends with the failed request and the second record adds
  nothing) and raises one \<^verbatim>\<open>Exception\<close> whose message is \<^verbatim>\<open>Error: execution error - \<close>
  followed by the message of the error raised in place of the upstream one. When the
  publish or the node query fails with an \<^verbatim>\<open>HTTPClientError\<close>, that message ends with
  the upstream message; when the tag query or the node query is refused with a
  \<^verbatim>\<open>ClientError\<close>, it ends with the upstream code and message, \<^verbatim>\<open>code : message\<close>. When
  the tag query fails with the same \<^verbatim>\<open>HTTPClientError\<close>, the message is the fixed text
  \<^verbatim>\<open>Error: An error occurred when checking Cluster tags.\<close>: the upstream message, which
  the other two paths carry, is not in it.
\<close>

theorem tag_query_failure_drops_upstream_message:
  "handler (example_world env_tagged tags_unreachable)
     (sqs_event [message body_disconnected, message body_disconnected])
   = (Inl (Exception
        (u ''Error: execution error - Error: An error occurred when checking Cluster tags.'')),
      demo_queries demo_cluster @ [DescribeClusters (PStr demo_cluster)])
   \<and> handler (example_world env_tagged publish_unreachable)
     (sqs_event [message body_disconnected, message body_disconnected])
   = (Inl (Exception
        (u ''Error: execution error - Error: An error occurred when sending the e-mail - An HTTP Client raised an unhandled exception: Connection reset by peer'')),
      demo_queries demo_cluster @ [DescribeClusters (PStr demo_cluster), demo_publish demo_cluster])
   \<and> handler (example_world env_tagged node_unreachable)
     (sqs_event [message body_disconnected, message body_disconnected])
   = (Inl (Exception
        (u ''Error: execution error - Error: An error occurred when fetching instance details - An HTTP Client raised an unhandled exception: Connection reset by peer'')),
      [DescribeContainerInstances (PStr demo_cluster) (PStr demo_instance_arn)])
   \<and> handler (example_world env_tagged tags_denied)
     (sqs_event [message body_disconnected, message body_disconnected])
   = (Inl (Exception
        (u ''Error: execution error - Error: An error occurred when checking Cluster tags - AccessDeniedException : User is not authorized to perform: ecs:DescribeClusters'')),
      demo_queries demo_cluster @ [DescribeClusters (PStr demo_cluster)])
   \<and> handler (example_world env_tagged cluster_not_found)
     (sqs_event [message body_disconnected, message body_disconnected])
   = (Inl (Exception
        (u ''Error: execution error - Error: An error occurred when fetching instance details - ClusterNotFoundException : Cluster not found.'')),
      [DescribeContainerInstances (PStr demo_cluster) (PStr demo_instance_arn)])"
proof -
  let ?n = "demo_node\<lparr>cluster_arn := PStr demo_cluster\<rparr>"
  let ?d = "message body_disconnected"
  let ?dci = "DescribeContainerInstances (PStr demo_cluster) (PStr demo_instance_arn)"
  let ?wa = "example_world env_tagged tags_unreachable"
  have ra: "resolve ?wa ?d [] = (Inr ?n, [] @ demo_queries demo_cluster)"
    by (rule resolve_answers [OF failing_world_simps(1,2)])
  have ua: "upstream ?wa (([] @ demo_queries demo_cluster) @ [DescribeClusters (cluster_arn ?n)])
              = Inl connection_reset"
    by (simp only: example_world_simps answer_simps failing_world_simps)
  have a: "handler ?wa (sqs_event [?d, ?d])
   = (Inl (Exception
        (u ''Error: execution error - Error: An error occurred when checking Cluster tags.'')),
      demo_queries demo_cluster @ [DescribeClusters (PStr demo_cluster)])"
    using tag_query_failure_aborts [OF empty_prefix ra tagged_config ua, of "[?d]"]
    by (simp add: connection_reset_def str_exn_def demo_node_eligible u_append [symmetric])
  let ?wb = "example_world env_tagged publish_unreachable"
  have eb: "examine ?wb (read_config ?wb) ?d []
              = (Eligible ?n, [] @ demo_queries demo_cluster @ [DescribeClusters (PStr demo_cluster)])"
    by (rule examine_answers [OF failing_world_simps(7,8,9)])
  have nb: "ec2_id ?n \<notin> set []" by simp
  have ub: "upstream ?wb (([] @ demo_queries demo_cluster @ [DescribeClusters (PStr demo_cluster)])
              @ [Publish (email_notification (read_config ?wb))
                   ((u ''[ISSUE] ECS Container Instance '') @ ec2_id ?n @ (u '' from Cluster '')
                    @ py_str ?wb (cluster_arn ?n) @ (u '' has the ECS Agent disconnected.''))
                   (subject_for (ec2_id ?n))]) = Inl connection_reset"
    by (simp only: example_world_simps answer_simps failing_world_simps)
  have b: "handler ?wb (sqs_event [?d, ?d])
   = (Inl (Exception
        (u ''Error: execution error - Error: An error occurred when sending the e-mail - An HTTP Client raised an unhandled exception: Connection reset by peer'')),
      demo_queries demo_cluster @ [DescribeClusters (PStr demo_cluster), demo_publish demo_cluster])"
    using publish_failure_aborts [OF empty_prefix eb nb ub, of "[?d]"]
    by (simp add: connection_reset_def str_exn_def example_world_simps example_exn_str_def
          demo_node_eligible example_topic demo_publish_def subject_for_def py_str_def
          u_append [symmetric] u_append_assoc)
  let ?wc = "example_world env_tagged node_unreachable"
  have uc: "upstream ?wc ([] @ [?dci]) = Inl connection_reset"
    by (simp only: example_world_simps answer_simps failing_world_simps)
  have c: "handler ?wc (sqs_event [?d, ?d])
   = (Inl (Exception
        (u ''Error: execution error - Error: An error occurred when fetching instance details - An HTTP Client raised an unhandled exception: Connection reset by peer'')),
      [?dci])"
    using node_query_failure_aborts
            [OF empty_prefix message_body example_loads(1) state_change_fields(1,2,3)
                state_change_detail_fields uc, of "[?d]"]
    by (simp add: connection_reset_def str_exn_def example_world_simps example_exn_str_def
          u_append [symmetric])
  let ?wd = "example_world env_tagged tags_denied"
  have rd: "resolve ?wd ?d [] = (Inr ?n, [] @ demo_queries demo_cluster)"
    by (rule resolve_answers [OF failing_world_simps(4,5)])
  have ud: "upstream ?wd (([] @ demo_queries demo_cluster) @ [DescribeClusters (cluster_arn ?n)])
              = Inl (ClientError (client_error_response (u ''AccessDeniedException'')
                       (u ''User is not authorized to perform: ecs:DescribeClusters'')))"
    by (simp only: example_world_simps answer_simps failing_world_simps)
  have d: "handler ?wd (sqs_event [?d, ?d])
   = (Inl (Exception
        (u ''Error: execution error - Error: An error occurred when checking Cluster tags - AccessDeniedException : User is not authorized to perform: ecs:DescribeClusters'')),
      demo_queries demo_cluster @ [DescribeClusters (PStr demo_cluster)])"
    using tag_query_failure_aborts [OF empty_prefix rd tagged_config ud, of "[?d]"]
    by (simp add: client_error_example str_exn_def demo_node_eligible u_append [symmetric])
  let ?we = "example_world env_tagged cluster_not_found"
  have ue: "upstream ?we ([] @ [?dci])
              = Inl (ClientError (client_error_response (u ''ClusterNotFoundException'')
                       (u ''Cluster not found.'')))"
    by (simp only: example_world_simps answer_simps failing_world_simps)
  have e: "handler ?we (sqs_event [?d, ?d])
   = (Inl (Exception
        (u ''Error: execution error - Error: An error occurred when fetching instance details - ClusterNotFoundException : Cluster not found.'')),
      [?dci])"
    using node_query_failure_aborts
            [OF empty_prefix message_body example_loads(1) state_change_fields(1,2,3)
                state_change_detail_fields ue, of "[?d]"]
    by (simp add: client_error_example str_exn_def u_append [symmetric])
  show ?thesis using a b c d e by blast
qed

subsection \<open>The metric line\<close>

lemma alert_without_separator:
  assumes "ec2_id node \<notin> set seen"
    and "upstream w (tr @ [Publish (email_notification cfg)
                   ((u ''[ISSUE] ECS Container Instance '') @ ec2_id node @ (u '' from Cluster '')
                    @ py_str w (cluster_arn node) @ (u '' has the ECS Agent disconnected.''))
                   (subject_for (ec2_id node))]) = Inr r"
    and "(cp CHR ''/'') \<notin> set (py_str w (cluster_arn node))"
  shows "fst (alert w cfg node seen tr) = Raise IndexError"
  using alert_sent [OF assms(1,2)] assms(3) by simp

text \<open>
  C9. In the world that monitors every cluster, an event naming its cluster by the full
  identifier is answered with the notification and then the metric line with the short
  name. An event naming the same cluster by its short name \<^verbatim>\<open>demo\<close>, which has no
  \<^verbatim>\<open>/\<close>, gets the notification published and then fails: \<^verbatim>\<open>rsplit("/", 1)[1]\<close> is out
  of range, no metric line is written and the handler raises.
\<close>

theorem metric_line_fails_without_separator:
  "handler (example_world env_all_clusters healthy) (sqs_event [message body_disconnected])
     = (Inr (), demo_queries demo_cluster
                @ [demo_publish demo_cluster, LogWarning (u ''demo i-0123abcd'')])
   \<and> handler (example_world env_all_clusters healthy) (sqs_event [message body_short_cluster])
     = (Inl (Exception (u ''Error: execution error - list index out of range'')),
        demo_queries (u ''demo'') @ [demo_publish (u ''demo'')])"
proof -
  let ?w = "example_world env_all_clusters healthy"
  have p: "handler_loop ?w (read_config ?w) [] [] [] = (Next, [], [])" by simp
  have r: "handler_record ?w (read_config ?w) (message body_short_cluster) [] [] =
             (Raise IndexError, [] @ [(u ''i-0123abcd'')],
              [] @ demo_queries (u ''demo'') @ [demo_publish (u ''demo'')])"
    by (rule example_record_all(2)) simp
  have n: "Raise IndexError \<noteq> Next" by simp
  have 1: "handler ?w (sqs_event [message body_disconnected])
     = (Inr (), demo_queries demo_cluster
                @ [demo_publish demo_cluster, LogWarning (u ''demo i-0123abcd'')])"
    by (simp add: handler_def handler_try_sqs_event example_record_all(1) demo_alert_all_def)
  have 2: "handler ?w (sqs_event [message body_short_cluster])
     = (Inl (Exception (u ''Error: execution error - list index out of range'')),
        demo_queries (u ''demo'') @ [demo_publish (u ''demo'')])"
    using handler_stops [OF p r n, of "[]"]
    by (simp add: str_exn_def example_world_simps example_exn_str_def u_append [symmetric])
  show ?thesis using 1 2 by blast
qed

end
